theory Spec2Isabelle
  imports Complex_Main "HOL-Library.Product_Lexorder"
begin

section \<open>Numbers and dates\<close>

text \<open>
  The scripts compute with numpy and pandas floating-point numbers. They are modelled as
  exact reals together with the three special values a division by zero or an empty
  reduction produces. Comparisons with \<open>NaN\<close> are false, as in numpy.
\<close>

datatype npfloat = Fin real | PInf | NInf | NaN

fun np_lt :: "npfloat \<Rightarrow> npfloat \<Rightarrow> bool" where
  "np_lt (Fin a) (Fin b) = (a < b)"
| "np_lt (Fin a) PInf = True"
| "np_lt NInf (Fin b) = True"
| "np_lt NInf PInf = True"
| "np_lt _ _ = False"

fun np_le :: "npfloat \<Rightarrow> npfloat \<Rightarrow> bool" where
  "np_le (Fin a) (Fin b) = (a \<le> b)"
| "np_le (Fin a) PInf = True"
| "np_le NInf (Fin b) = True"
| "np_le NInf NInf = True"
| "np_le NInf PInf = True"
| "np_le PInf PInf = True"
| "np_le _ _ = False"

text \<open>Division of two finite floats; the divisor zero is the positive zero.\<close>

definition np_div :: "real \<Rightarrow> real \<Rightarrow> npfloat" where
  "np_div a b =
     (if b \<noteq> 0 then Fin (a / b)
      else if 0 < a then PInf else if a < 0 then NInf else NaN)"

fun np_quot :: "npfloat \<Rightarrow> npfloat \<Rightarrow> npfloat" where
  "np_quot (Fin a) (Fin b) = np_div a b"
| "np_quot NaN _ = NaN"
| "np_quot _ NaN = NaN"
| "np_quot (Fin a) _ = Fin 0"
| "np_quot PInf (Fin b) = (if 0 \<le> b then PInf else NInf)"
| "np_quot NInf (Fin b) = (if 0 \<le> b then NInf else PInf)"
| "np_quot _ _ = NaN"

text \<open>\<open>c * x\<close> for a positive finite constant \<open>c\<close>, and \<open>c - x\<close>.\<close>

fun np_scale :: "real \<Rightarrow> npfloat \<Rightarrow> npfloat" where
  "np_scale c (Fin a) = Fin (c * a)"
| "np_scale c x = x"

fun np_rsub :: "real \<Rightarrow> npfloat \<Rightarrow> npfloat" where
  "np_rsub c (Fin a) = Fin (c - a)"
| "np_rsub c PInf = NInf"
| "np_rsub c NInf = PInf"
| "np_rsub c NaN = NaN"

text \<open>
  A pandas timestamp at midnight is a calendar date. Timestamps are compared by year,
  month and day, and subtracted through their day number (days since 1970-01-01,
  proleptic Gregorian).
\<close>

datatype date = Date (yr: int) (mo: nat) (dy: nat)

definition day_number :: "date \<Rightarrow> int" where
  "day_number d =
     (let y = (if mo d \<le> 2 then yr d - 1 else yr d);
          era = y div 400;
          yoe = y - era * 400;
          mp = (if 2 < mo d then int (mo d) - 3 else int (mo d) + 9);
          doy = (153 * mp + 2) div 5 + int (dy d) - 1;
          doe = yoe * 365 + yoe div 4 - yoe div 100 + doy
      in era * 146097 + doe - 719468)"

definition date_key :: "date \<Rightarrow> int \<times> nat \<times> nat" where
  "date_key d = (yr d, mo d, dy d)"

definition date_le :: "date \<Rightarrow> date \<Rightarrow> bool" where
  "date_le a b \<longleftrightarrow> date_key a \<le> date_key b"

definition is_leap :: "int \<Rightarrow> bool" where
  "is_leap y \<longleftrightarrow> (y mod 4 = 0 \<and> y mod 100 \<noteq> 0) \<or> y mod 400 = 0"

definition days_in_month :: "int \<Rightarrow> nat \<Rightarrow> nat" where
  "days_in_month y m =
     (if m = 2 then (if is_leap y then 29 else 28)
      else if m = 4 \<or> m = 6 \<or> m = 9 \<or> m = 11 then 30 else 31)"

text \<open>\<open>d + pd.DateOffset(years=k)\<close>: the same month and day, the day clipped to the month.\<close>

definition add_years :: "date \<Rightarrow> int \<Rightarrow> date" where
  "add_years d k = Date (yr d + k) (mo d) (min (dy d) (days_in_month (yr d + k) (mo d)))"

text \<open>The bins of \<open>resample('MS')\<close> and \<open>resample('YS-OCT')\<close>, named by their first day.\<close>

definition month_start :: "date \<Rightarrow> date" where
  "month_start d = Date (yr d) (mo d) 1"

definition water_year_start :: "date \<Rightarrow> date" where
  "water_year_start d = Date (if 10 \<le> mo d then yr d else yr d - 1) 10 1"

section \<open>Series and the pandas operations the scripts use\<close>

type_synonym reading = "date \<times> real"

text \<open>\<open>s.shift(n)\<close>: the values move down \<open>n\<close> rows, the first \<open>n\<close> rows are missing.\<close>

definition shift :: "nat \<Rightarrow> 'a list \<Rightarrow> 'a option list" where
  "shift n xs = take (length xs) (replicate n None @ map Some xs)"

text \<open>Elementwise \<open>!=\<close> (and \<open>Series.ne\<close>): a missing value differs from everything.\<close>

definition ne_series :: "'a list \<Rightarrow> 'a option list \<Rightarrow> bool list" where
  "ne_series xs ps = map2 (\<lambda>x p. p \<noteq> Some x) xs ps"

fun cumsum_from :: "nat \<Rightarrow> bool list \<Rightarrow> nat list" where
  "cumsum_from acc [] = []"
| "cumsum_from acc (b # bs) =
     (acc + (if b then 1 else 0)) # cumsum_from (acc + (if b then 1 else 0)) bs"

definition cumsum :: "bool list \<Rightarrow> nat list" where
  "cumsum bs = cumsum_from 0 bs"

text \<open>\<open>s.duplicated(keep=False)\<close>: every row whose value occurs more than once.\<close>

definition duplicated_all :: "'a list \<Rightarrow> bool list" where
  "duplicated_all xs = map (\<lambda>x. 1 < count_list xs x) xs"

text \<open>Boolean-mask selection \<open>df.loc[mask]\<close>.\<close>

definition select_rows :: "'a list \<Rightarrow> bool list \<Rightarrow> 'a list" where
  "select_rows rows keep = map fst (filter snd (zip rows keep))"

text \<open>\<open>Series.mean()\<close>, and \<open>Series.std()\<close> with pandas' default \<open>ddof=1\<close>.\<close>

definition mean :: "real list \<Rightarrow> npfloat" where
  "mean xs = (if xs = [] then NaN else Fin (sum_list xs / real (length xs)))"

definition std :: "real list \<Rightarrow> npfloat" where
  "std xs =
     (if length xs < 2 then NaN
      else Fin (sqrt (sum_list (map (\<lambda>x. (x - sum_list xs / real (length xs))\<^sup>2) xs)
                       / (real (length xs) - 1))))"

text \<open>\<open>np.median\<close>: the middle of the sorted values, \<open>NaN\<close> for none.\<close>

definition median :: "real list \<Rightarrow> npfloat" where
  "median xs =
     (let s = sort xs; n = length s
      in if n = 0 then NaN
         else if odd n then Fin (s ! (n div 2))
         else Fin ((s ! (n div 2 - 1) + s ! (n div 2)) / 2))"

text \<open>
  \<open>df.resample(rule).agg().dropna()\<close>: one row per non-empty bin, in time order, holding
  the aggregate of the bin's values.
\<close>

definition resample :: "(date \<Rightarrow> date) \<Rightarrow> (real list \<Rightarrow> real) \<Rightarrow> reading list \<Rightarrow> reading list" where
  "resample bin agg rows =
     map (\<lambda>l. (l, agg (map snd (filter (\<lambda>r. bin (fst r) = l) rows))))
       (sort_key date_key (remdups (map (\<lambda>r. bin (fst r)) rows)))"

definition maximum :: "real list \<Rightarrow> real" where
  "maximum xs = Max (set xs)"

definition minimum :: "real list \<Rightarrow> real" where
  "minimum xs = Min (set xs)"

definition average :: "real list \<Rightarrow> real" where
  "average xs = sum_list xs / real (length xs)"

section \<open>DownloadData.py: quality control\<close>

text \<open>Stage 1, R3TCSV (lines 88-95).\<close>

definition R3TCSV :: "reading list \<Rightarrow> reading list" where
  "R3TCSV gw_daily =
     (let vals = map snd gw_daily;
          count = cumsum (ne_series vals (shift 1 vals));
          previous_row = shift 2 count;
          not_equal = ne_series count previous_row;
          cumulative_sum = cumsum not_equal;
          duplicates = duplicated_all cumulative_sum
      in select_rows gw_daily (map Not duplicates))"

text \<open>Stage 2, RVZ3 (lines 97-102).\<close>

definition RVZ3 :: "reading list \<Rightarrow> reading list" where
  "RVZ3 gw_R3TCSV =
     (case mean (map snd gw_R3TCSV) of
        Fin m \<Rightarrow>
          (let deviation = map (\<lambda>r. snd r - m) gw_R3TCSV;
               std_deviation = std deviation;
               threshold = np_scale 3 std_deviation
           in select_rows gw_R3TCSV (map (\<lambda>dv. np_le (Fin \<bar>dv\<bar>) threshold) deviation))
      | _ \<Rightarrow> [])"

text \<open>Stage 3, RDRVI (lines 104-120): the loop over the water years.\<close>

fun RDRVI_loop :: "real list \<Rightarrow> (reading \<times> reading) list \<Rightarrow> reading list \<Rightarrow> reading list" where
  "RDRVI_loop Range_Y [] gw_RDRVI = gw_RDRVI"
| "RDRVI_loop Range_Y (((label, mx), (_, mn)) # years) gw_RDRVI =
     (let RVI = np_quot (Fin (mx - mn)) (median Range_Y)
      in RDRVI_loop Range_Y years
           (if np_lt (Fin 5) RVI \<or> np_lt RVI (Fin 0.2)
            then filter (\<lambda>r. \<not> (date_le label (fst r) \<and> date_le (fst r) (add_years label 1)))
                   gw_RDRVI
            else gw_RDRVI))"

definition RDRVI :: "reading list \<Rightarrow> reading list" where
  "RDRVI gw_RVZ3 =
     (let Max_Y = resample water_year_start maximum gw_RVZ3;
          Min_Y = resample water_year_start minimum gw_RVZ3;
          Range_Y = map2 (\<lambda>a b. snd a - snd b) Max_Y Min_Y
      in RDRVI_loop Range_Y (zip Max_Y Min_Y) gw_RVZ3)"

definition quality_control :: "reading list \<Rightarrow> reading list" where
  "quality_control gw_daily = RDRVI (RVZ3 (R3TCSV gw_daily))"

section \<open>DownloadData.py: the per-station report\<close>

text \<open>Python's \<open>int(x)\<close> truncates towards zero; \<open>round(x)\<close> rounds halves to even.\<close>

definition py_int :: "real \<Rightarrow> int" where
  "py_int x = (if 0 \<le> x then \<lfloor>x\<rfloor> else \<lceil>x\<rceil>)"

definition py_round :: "real \<Rightarrow> int" where
  "py_round x =
     (let f = \<lfloor>x\<rfloor>; d = x - real_of_int f
      in if d < 1 / 2 then f else if 1 / 2 < d then f + 1 else if even f then f else f + 1)"

text \<open>\<open>int((b - a).days / 365 + 1)\<close>, the scripts' count of years from \<open>a\<close> to \<open>b\<close>.\<close>

definition year_count :: "date \<Rightarrow> date \<Rightarrow> int" where
  "year_count a b = py_int (real_of_int (day_number b - day_number a) / 365 + 1)"

text \<open>A row of \<open>stations info.csv\<close>: a sentinel text, or the station's statistics.\<close>

datatype info_row =
  Sentinel string
| Statistics nat real real real date date int nat

text \<open>Lines 158-162: monthly means, then water-year means of the monthly means.\<close>

definition annual_series :: "reading list \<Rightarrow> reading list" where
  "annual_series gd = resample water_year_start average (resample month_start average gd)"

text \<open>
  Lines 165-178 of DownloadData.py: the row written for a station and the annual series
  saved for it, if any. In the last branch \<open>YMG\<close> has more than 8 rows, so its first and
  last index exist.
\<close>

definition station_info :: "reading list \<Rightarrow> info_row \<times> reading list option" where
  "station_info gd =
     (let YMG = annual_series gd;
          mean_depth = mean (map snd YMG)
      in if length gd \<le> 100 \<or> length YMG \<le> 8 then (Sentinel ''no enough data'', None)
         else if np_le mean_depth (Fin 0) then (Sentinel ''negative mean depth'', None)
         else (Statistics (length gd) (average (map snd gd)) (maximum (map snd gd))
                 (minimum (map snd gd)) (fst (hd YMG)) (fst (last YMG))
                 (year_count (fst (hd YMG)) (fst (last YMG))) (length YMG),
               Some YMG))"

text \<open>The Python exceptions the scripts can raise.\<close>

datatype py_error = IndexError | ValueError | RuntimeError | ZeroDivisionError | NameError

text \<open>
  Lines 93-108 of 0\_DownloadData.py, the older copy of the script. Its test of the amount
  of data starts with \<open>len(gwl)\<close>, and the script binds the name \<open>gwl\<close> nowhere: the test
  raises \<open>NameError\<close> before it compares anything, and neither branch is reached.
\<close>

definition station_info_0 :: "reading list \<Rightarrow> py_error + (info_row \<times> reading list option)" where
  "station_info_0 gd = (let YMG = annual_series gd in Inl NameError)"



section \<open>Classification.py\<close>

text \<open>
  Classification.py uses the names \<open>np\<close>, \<open>stats\<close> and \<open>curve_fit\<close> and imports none of
  them: its imports are pandas and csv. What the three names are bound to when its
  functions run is a parameter of the model: numpy, scipy.stats, and
  scipy.optimize.curve_fit with its optimiser, or nothing. A name that is bound to
  nothing raises \<open>NameError\<close> where it is first evaluated. The function \<open>read_csv\<close> of
  the file, which reads a saved annual series from disk, is not part of the model; it
  uses \<open>np\<close> and \<open>mdates\<close>, which the file does not import either.
\<close>

type_synonym params = "real \<times> real \<times> real \<times> real"

text \<open>
  The optimiser inside \<open>scipy.optimize.curve_fit\<close> is a parameter of the model: given the
  data, the initial guess and the bounds it returns fitted parameters or raises.
\<close>

type_synonym solver =
  "real list \<Rightarrow> real list \<Rightarrow> real list \<Rightarrow> real list \<Rightarrow> real list \<Rightarrow> py_error + params"

record library =
  np_bound :: bool
  stats_bound :: bool
  curve_fit_bound :: "solver option"

text \<open>The names as the imports of the file leave them, and as the three libraries bind them.\<close>

definition file_imports :: library where
  "file_imports = \<lparr>np_bound = False, stats_bound = False, curve_fit_bound = None\<rparr>"

definition scipy_imports :: "solver \<Rightarrow> library" where
  "scipy_imports solve = \<lparr>np_bound = True, stats_bound = True, curve_fit_bound = Some solve\<rparr>"

text \<open>
  Modelled from the spec: \<open>scipy.optimize.curve_fit\<close> with bounds, a library function that
  is not in the repository. The spec's FitNonConvergence names degenerate bounds as a
  failure of the fit: the library refuses bounds with a lower bound that is not strictly
  below its upper bound and an initial guess outside the bounds (ValueError) before it
  starts the optimiser, whose own failure (RuntimeError) is the solver's result.
\<close>

definition curve_fit ::
  "solver \<Rightarrow> real list \<Rightarrow> real list \<Rightarrow> real list \<Rightarrow> real list \<times> real list \<Rightarrow> py_error + params" where
  "curve_fit solve xdata ydata p0 bounds =
     (let lb = fst bounds; ub = snd bounds
      in if list_ex (\<lambda>(l, u). u \<le> l) (zip lb ub) then Inl ValueError
         else if \<not> list_all (\<lambda>(l, p, u). l \<le> p \<and> p \<le> u) (zip lb (zip p0 ub)) then Inl ValueError
         else solve xdata ydata p0 lb ub)"

text \<open>
  Modelled from the spec: \<open>scipy.stats.theilslopes(y, x).slope\<close>, a library function that is
  not in the repository; the spec's glossary calls it the median-of-pairwise-slopes
  estimator. The slopes are those of the pairs of points with a positive difference of
  \<open>x\<close>; their median is \<open>NaN\<close> when there is no such pair.
\<close>

definition theilslopes :: "real list \<Rightarrow> real list \<Rightarrow> npfloat" where
  "theilslopes y x =
     median [(yi - yj) / (xi - xj). (xi, yi) \<leftarrow> zip x y, (xj, yj) \<leftarrow> zip x y, 0 < xi - xj]"

text \<open>\<open>piecewise\<close> (lines 24-45), at one point \<open>x\<close>.\<close>

definition piecewise :: "real \<Rightarrow> params \<Rightarrow> real" where
  "piecewise x ps =
     (case ps of (x0, x1, y0, y1) \<Rightarrow>
        (let a = (if x1 \<le> x0 then x1 else x0);
             b = (if x1 \<le> x0 then x0 else x1)
         in if x \<le> a then y0
            else if x \<le> b then (x - a) * (y1 - y0) / (b - a) + y0
            else y1))"

text \<open>
  The column \<open>sequence\<close> that \<open>classidication\<close> adds to \<open>YMG\<close> (line 116); the annual series
  is passed on together with it.
\<close>

definition sequence_column :: "reading list \<Rightarrow> int list" where
  "sequence_column YMG =
     map (\<lambda>r. py_int (real_of_int (day_number (fst r) - day_number (fst (hd YMG))) / 365 + 1)) YMG"

text \<open>
  \<open>suddenchange\<close> (lines 48-82), called on a series with a row. The name \<open>curve_fit\<close> is
  evaluated before its arguments, and \<open>YMG['sequence'].iloc[-2]\<close> needs two rows.
\<close>

definition suddenchange ::
  "solver option \<Rightarrow> real list \<Rightarrow> real list \<Rightarrow> reading list \<Rightarrow> int list \<Rightarrow> real \<Rightarrow> real
     \<Rightarrow> py_error + (npfloat \<times> int \<times> int \<times> date \<times> date)" where
  "suddenchange cf xx yy YMG sq a0 a1 =
     (case cf of
        None \<Rightarrow> Inl NameError
      | Some solve \<Rightarrow>
     (if length YMG < 2 then Inl IndexError
      else
        (let first_year = fst (hd YMG);
             last_year = fst (last YMG);
             s2 = real_of_int (sq ! (length sq - 2));
             s1 = real_of_int (sq ! (length sq - 1))
         in case curve_fit solve xx yy
                   [2, s2, real_of_int (py_round a0), real_of_int (py_round a1)]
                   ([1, 2, - 100, - 100], [s2, s1, 1000, 1000]) of
              Inl e \<Rightarrow> Inl e
            | Inr ps \<Rightarrow>
                (case ps of (p0, p1, p2, p3) \<Rightarrow>
                   (let y_t = map (\<lambda>x. piecewise x ps) xx;
                        R2 = np_rsub 1
                               (np_div (sum_list (map2 (\<lambda>t y. (t - y)\<^sup>2) y_t yy))
                                  (sum_list (map (\<lambda>y. (y - average yy)\<^sup>2) yy)));
                        start_year =
                          (if p0 < p1 then add_years first_year (py_round (p0 - 1))
                           else add_years first_year (py_round (p1 - 1)));
                        end_year =
                          (if p0 < p1 then add_years start_year (py_round (p1 - p0))
                           else add_years start_year (py_round (p0 - p1)));
                        windows = year_count start_year end_year;
                        total_year = year_count first_year last_year
                    in Inr (R2, windows, total_year, start_year, end_year))))))"

text \<open>
  \<open>trendstable\<close> (lines 85-103): \<open>YMG.drop(YMG.index[r])\<close> drops the rows that carry the
  date of row \<open>r\<close>; the column \<open>sequence\<close> is not recomputed.
\<close>

definition drop_label :: "(reading \<times> int) list \<Rightarrow> nat \<Rightarrow> (reading \<times> int) list" where
  "drop_label YMG r = filter (\<lambda>row. fst (fst row) \<noteq> fst (fst (YMG ! r))) YMG"

definition trendstable :: "(reading \<times> int) list \<Rightarrow> npfloat list" where
  "trendstable YMG =
     map (\<lambda>r. let YMG1 = drop_label YMG r
              in theilslopes (map (\<lambda>row. snd (fst row)) YMG1) (map (\<lambda>row. real_of_int (snd row)) YMG1))
       [0..<length YMG]"

text \<open>
  The test \<open>pw_R2 >= 0.7 and windows / total_year <= 0.5 and windows <= 15\<close>; the division
  of two Python integers is evaluated only after the first conjunct holds.
\<close>

definition step_change :: "npfloat \<Rightarrow> int \<Rightarrow> int \<Rightarrow> py_error + bool" where
  "step_change pw_R2 windows total_year =
     (if \<not> np_le (Fin 0.7) pw_R2 then Inr False
      else if total_year = 0 then Inl ZeroDivisionError
      else Inr (real_of_int windows / real_of_int total_year \<le> 0.5 \<and> windows \<le> 15))"

text \<open>
  The two copies of the script differ in the dead zone of the slope and in the names of
  the steady labels.
\<close>

record variant =
  dead_zone :: real
  steady_up :: string
  steady_down :: string

definition Classification_py :: variant where
  "Classification_py =
     \<lparr>dead_zone = 0.02, steady_up = ''Increasing'', steady_down = ''Decreasing''\<rparr>"

definition Classification_1_py :: variant where
  "Classification_1_py =
     \<lparr>dead_zone = 0.1, steady_up = ''Slow increasing'', steady_down = ''Slow decreasing''\<rparr>"

record classification =
  label :: string
  ts_slope :: npfloat
  pw_R2 :: npfloat
  windows :: int
  start_year :: date
  end_year :: date

text \<open>
  \<open>classidication\<close> (lines 106-148). \<open>YMG.index[0]\<close> needs a row (line 116); line 117
  evaluates \<open>stats\<close> and line 118 evaluates \<open>np\<close>.
\<close>

definition classidication :: "library \<Rightarrow> variant \<Rightarrow> reading list \<Rightarrow> py_error + classification" where
  "classidication L V YMG =
     (if YMG = [] then Inl IndexError
      else if \<not> stats_bound L then Inl NameError
      else if \<not> np_bound L then Inl NameError
      else
        (let sq = sequence_column YMG;
             ts_s = theilslopes (map snd YMG) (map real_of_int sq);
             xx = map real_of_int sq;
             yy = map snd YMG
         in if np_lt ts_s (Fin (- dead_zone V)) then
              (case suddenchange (curve_fit_bound L) xx yy YMG sq (minimum yy) (maximum yy) of
                 Inl e \<Rightarrow> Inl e
               | Inr (R2, w, total_year, sy, ey) \<Rightarrow>
                   (case step_change R2 w total_year of
                      Inl e \<Rightarrow> Inl e
                    | Inr sudden \<Rightarrow>
                        Inr \<lparr>label =
                               (if sudden then ''Sudden upward change''
                                else if list_all (\<lambda>item. np_lt item (Fin 0.1)) (trendstable (zip YMG sq))
                                then steady_up V else ''No trend''),
                             ts_slope = ts_s, pw_R2 = R2, windows = w,
                             start_year = sy, end_year = ey\<rparr>))
            else if np_lt (Fin (dead_zone V)) ts_s then
              (case suddenchange (curve_fit_bound L) xx yy YMG sq (minimum yy) (maximum yy) of
                 Inl e \<Rightarrow> Inl e
               | Inr (R2, w, total_year, sy, ey) \<Rightarrow>
                   (case step_change R2 w total_year of
                      Inl e \<Rightarrow> Inl e
                    | Inr sudden \<Rightarrow>
                        Inr \<lparr>label =
                               (if sudden then ''Sudden downward change''
                                else if list_all (\<lambda>item. np_lt (Fin (- 0.02)) item) (trendstable (zip YMG sq))
                                then steady_down V else ''No trend''),
                             ts_slope = ts_s, pw_R2 = R2, windows = w,
                             start_year = sy, end_year = ey\<rparr>))
            else
              (case suddenchange (curve_fit_bound L) xx yy YMG sq (minimum yy) (maximum yy) of
                 Inl e \<Rightarrow> Inl e
               | Inr (R2, w, total_year, sy, ey) \<Rightarrow>
                   Inr \<lparr>label = ''No trend'', ts_slope = ts_s, pw_R2 = R2, windows = w,
                        start_year = sy, end_year = ey\<rparr>)))"


section \<open>SpatialHeterogeneity.py\<close>







section \<open>Notions of the specification\<close>

text \<open>
  Row \<open>i\<close> of a series of values lies in a flat run of three or more and is not the first
  row of that run: it repeats the value before it, and so does the row before that or the
  row after it.
\<close>

definition flat_tail :: "real list \<Rightarrow> nat \<Rightarrow> bool" where
  "flat_tail v i \<longleftrightarrow>
     0 < i \<and> v ! (i - 1) = v ! i \<and>
     ((2 \<le> i \<and> v ! (i - 2) = v ! i) \<or> (Suc i < length v \<and> v ! Suc i = v ! i))"

text \<open>
  The two standard deviations of a series of values: the population one divides the sum
  of squares by \<open>N\<close>, the sample one by \<open>N - 1\<close>.
\<close>

definition population_std :: "real list \<Rightarrow> real" where
  "population_std xs = sqrt (sum_list (map (\<lambda>x. (x - average xs)\<^sup>2) xs) / real (length xs))"

definition sample_std :: "real list \<Rightarrow> real" where
  "sample_std xs = sqrt (sum_list (map (\<lambda>x. (x - average xs)\<^sup>2) xs) / (real (length xs) - 1))"

text \<open>
  Eleven days: ten readings that alternate between 1 and -1, then a reading of 11. No
  value occurs three times in a row.
\<close>

definition zscore_example :: "reading list" where
  "zscore_example =
     [(Date 2020 1 1, 1), (Date 2020 1 2, - 1), (Date 2020 1 3, 1), (Date 2020 1 4, - 1),
      (Date 2020 1 5, 1), (Date 2020 1 6, - 1), (Date 2020 1 7, 1), (Date 2020 1 8, - 1),
      (Date 2020 1 9, 1), (Date 2020 1 10, - 1), (Date 2020 1 11, 11)]"

text \<open>
  Four water years of two readings each, with ranges 1, 1, 20 and 1; the last water year
  starts with a reading on 1 October 2003.
\<close>

definition rdrvi_example :: "reading list" where
  "rdrvi_example =
     [(Date 2000 11 1, 10), (Date 2000 12 1, 11), (Date 2001 11 1, 10), (Date 2001 12 1, 11),
      (Date 2002 11 1, 10), (Date 2002 12 1, 30), (Date 2003 10 1, 10), (Date 2003 12 1, 11)]"

text \<open>
  Four water years of two readings each, with ranges 1, 1, 6 and 20, and what is left of
  them after the last year is removed.
\<close>

definition idempotence_example :: "reading list" where
  "idempotence_example =
     [(Date 2000 11 1, 10), (Date 2000 12 1, 11), (Date 2001 11 1, 10), (Date 2001 12 1, 11),
      (Date 2002 11 1, 10), (Date 2002 12 1, 16), (Date 2003 11 1, 10), (Date 2003 12 1, 30)]"

definition idempotence_example_once :: "reading list" where
  "idempotence_example_once =
     [(Date 2000 11 1, 10), (Date 2000 12 1, 11), (Date 2001 11 1, 10), (Date 2001 12 1, 11),
      (Date 2002 11 1, 10), (Date 2002 12 1, 16)]"

text \<open>The three bounds of the quality filter, as the specification words them.\<close>

definition no_flat_run3 :: "real list \<Rightarrow> bool" where
  "no_flat_run3 v \<longleftrightarrow> \<not> (\<exists>i. i + 2 < length v \<and> v ! i = v ! (i + 1) \<and> v ! (i + 1) = v ! (i + 2))"

definition within_three_std :: "real list \<Rightarrow> bool" where
  "within_three_std v \<longleftrightarrow>
     2 \<le> length v \<and> (\<forall>x \<in> set v. \<bar>x - average v\<bar> \<le> 3 * sample_std v)"

definition water_years :: "reading list \<Rightarrow> date list" where
  "water_years rows = sort_key date_key (remdups (map (\<lambda>r. water_year_start (fst r)) rows))"

definition year_range :: "reading list \<Rightarrow> date \<Rightarrow> real" where
  "year_range rows l =
     maximum (map snd (filter (\<lambda>r. water_year_start (fst r) = l) rows))
     - minimum (map snd (filter (\<lambda>r. water_year_start (fst r) = l) rows))"

definition RVI_of :: "reading list \<Rightarrow> date \<Rightarrow> npfloat" where
  "RVI_of rows l = np_quot (Fin (year_range rows l)) (median (map (year_range rows) (water_years rows)))"

definition rvi_within_bounds :: "reading list \<Rightarrow> bool" where
  "rvi_within_bounds rows \<longleftrightarrow>
     (\<forall>l \<in> set (water_years rows). np_le (Fin 0.2) (RVI_of rows l) \<and> np_le (RVI_of rows l) (Fin 5))"

text \<open>Two water years of two readings each, within all three bounds.\<close>

definition clean_example :: "reading list" where
  "clean_example =
     [(Date 2000 11 1, 10), (Date 2000 12 1, 11), (Date 2001 11 1, 10), (Date 2001 12 1, 11)]"

text \<open>
  A station with one reading of depth 5 on the first day of each of the 108 months from
  October 2000 to September 2009 (nine water years), and a station with one reading in
  each of eight water years.
\<close>

definition nine_year_station :: "reading list" where
  "nine_year_station =
     map (\<lambda>i. (Date (2000 + int ((i + 9) div 12)) ((i + 9) mod 12 + 1) 1, 5)) [0..<108]"

definition eight_year_station :: "reading list" where
  "eight_year_station = map (\<lambda>i. (Date (2000 + int i) 11 1, 5)) [0..<8]"


text \<open>
  Names for what \<open>classidication\<close> computes from an annual series: the robust slope, the
  curve fit it asks for, the metrics of the step-change fit, the test of the step change
  and the leave-one-out slopes.
\<close>

definition robust_slope :: "reading list \<Rightarrow> npfloat" where
  "robust_slope YMG = theilslopes (map snd YMG) (map real_of_int (sequence_column YMG))"

definition piecewise_fit :: "solver \<Rightarrow> reading list \<Rightarrow> py_error + params" where
  "piecewise_fit solve YMG =
     curve_fit solve (map real_of_int (sequence_column YMG)) (map snd YMG)
       [2, real_of_int (sequence_column YMG ! (length YMG - 2)),
        real_of_int (py_round (minimum (map snd YMG))),
        real_of_int (py_round (maximum (map snd YMG)))]
       ([1, 2, - 100, - 100],
        [real_of_int (sequence_column YMG ! (length YMG - 2)),
         real_of_int (sequence_column YMG ! (length YMG - 1)), 1000, 1000])"

definition fit_metrics :: "solver \<Rightarrow> reading list \<Rightarrow> py_error + (npfloat \<times> int \<times> int \<times> date \<times> date)" where
  "fit_metrics solve YMG =
     suddenchange (Some solve) (map real_of_int (sequence_column YMG)) (map snd YMG) YMG
       (sequence_column YMG) (minimum (map snd YMG)) (maximum (map snd YMG))"


definition loo_slopes :: "reading list \<Rightarrow> npfloat list" where
  "loo_slopes YMG = trendstable (zip YMG (sequence_column YMG))"

text \<open>The annual series without its row \<open>r\<close>, and the slope of what is left.\<close>

definition slope_without :: "reading list \<Rightarrow> nat \<Rightarrow> npfloat" where
  "slope_without YMG r =
     theilslopes (map snd (take r YMG @ drop (Suc r) YMG))
       (map real_of_int (take r (sequence_column YMG) @ drop (Suc r) (sequence_column YMG)))"

text \<open>
  Nine water years: a depth of 10 for four years, 6 in the fifth, 2 from the sixth on; the
  same with the depths rising from 2 to 10; nine years at the depth 5; and two years.
\<close>

definition step_down_example :: "reading list" where
  "step_down_example =
     [(Date 2000 10 1, 10), (Date 2001 10 1, 10), (Date 2002 10 1, 10), (Date 2003 10 1, 10),
      (Date 2004 10 1, 6), (Date 2005 10 1, 2), (Date 2006 10 1, 2), (Date 2007 10 1, 2),
      (Date 2008 10 1, 2)]"

definition step_up_example :: "reading list" where
  "step_up_example =
     [(Date 2000 10 1, 2), (Date 2001 10 1, 2), (Date 2002 10 1, 2), (Date 2003 10 1, 2),
      (Date 2004 10 1, 6), (Date 2005 10 1, 10), (Date 2006 10 1, 10), (Date 2007 10 1, 10),
      (Date 2008 10 1, 10)]"

definition flat_example :: "reading list" where
  "flat_example =
     [(Date 2000 10 1, 5), (Date 2001 10 1, 5), (Date 2002 10 1, 5), (Date 2003 10 1, 5),
      (Date 2004 10 1, 5), (Date 2005 10 1, 5), (Date 2006 10 1, 5), (Date 2007 10 1, 5),
      (Date 2008 10 1, 5)]"

definition two_year_example :: "reading list" where
  "two_year_example = [(Date 2000 10 1, 10), (Date 2001 10 1, 2)]"


definition zero_solver :: solver where
  "zero_solver xdata ydata p0 lb ub = Inr (4, 6, 0, 0)"

definition guess_solver :: solver where
  "guess_solver xdata ydata p0 lb ub = Inr (p0 ! 0, p0 ! 1, p0 ! 2, p0 ! 3)"

text \<open>Four water years with a depth that falls by 2 a year, and with one that rises by 2.\<close>

definition falling_example :: "reading list" where
  "falling_example =
     [(Date 2000 10 1, 10), (Date 2001 10 1, 8), (Date 2002 10 1, 6), (Date 2003 10 1, 4)]"

definition rising_example :: "reading list" where
  "rising_example =
     [(Date 2000 10 1, 4), (Date 2001 10 1, 6), (Date 2002 10 1, 8), (Date 2003 10 1, 10)]"



section \<open>Stage 1: which rows R3TCSV keeps\<close>

lemma length_cumsum_from [simp]: "length (cumsum_from a bs) = length bs"
  by (induction bs arbitrary: a) simp_all

lemma length_cumsum [simp]: "length (cumsum bs) = length bs"
  by (simp add: cumsum_def)

lemma cumsum_from_nth:
  "i < length bs \<Longrightarrow> cumsum_from a bs ! i = a + length (filter id (take (Suc i) bs))"
proof (induction bs arbitrary: a i)
  case Nil
  then show ?case by simp
next
  case (Cons b bs)
  show ?case
  proof (cases i)
    case 0
    then show ?thesis by simp
  next
    case (Suc k)
    with Cons.prems have "k < length bs" by simp
    from Cons.IH [OF this] Suc show ?thesis by simp
  qed
qed

lemma cumsum_Suc:
  assumes "Suc i < length bs"
  shows "cumsum bs ! Suc i = cumsum bs ! i + (if bs ! Suc i then 1 else 0)"
proof -
  have "take (Suc (Suc i)) bs = take (Suc i) bs @ [bs ! Suc i]"
    using assms by (simp add: take_Suc_conv_app_nth)
  then show ?thesis
    using assms by (simp add: cumsum_def cumsum_from_nth)
qed

lemma cumsum_mono:
  "i \<le> j \<Longrightarrow> j < length bs \<Longrightarrow> cumsum bs ! i \<le> cumsum bs ! j"
proof (induction j)
  case 0
  then show ?case by simp
next
  case (Suc j)
  show ?case
  proof (cases "i = Suc j")
    case True
    then show ?thesis by simp
  next
    case False
    with Suc.prems have "i \<le> j" "j < length bs" by simp_all
    from Suc.IH [OF this] cumsum_Suc [OF Suc.prems(2)] show ?thesis by simp
  qed
qed

lemma cumsum_strict:
  assumes "i < j" "j < length bs" "bs ! j"
  shows "cumsum bs ! i < cumsum bs ! j"
proof -
  obtain k where k: "j = Suc k" using assms(1) by (cases j) simp_all
  have "cumsum bs ! i \<le> cumsum bs ! k"
    using assms k by (intro cumsum_mono) simp_all
  moreover have "cumsum bs ! Suc k = cumsum bs ! k + 1"
    using cumsum_Suc [of k bs] assms k by simp
  ultimately show ?thesis using k by simp
qed

text \<open>A running count takes a value twice exactly at a row that adds nothing to it.\<close>

lemma cumsum_repeat_iff:
  assumes "i < length bs"
  shows "(\<exists>j < length bs. j \<noteq> i \<and> cumsum bs ! j = cumsum bs ! i) \<longleftrightarrow>
         (0 < i \<and> \<not> bs ! i) \<or> (Suc i < length bs \<and> \<not> bs ! Suc i)"
proof
  assume "\<exists>j < length bs. j \<noteq> i \<and> cumsum bs ! j = cumsum bs ! i"
  then obtain j where j: "j < length bs" "j \<noteq> i" "cumsum bs ! j = cumsum bs ! i" by blast
  show "(0 < i \<and> \<not> bs ! i) \<or> (Suc i < length bs \<and> \<not> bs ! Suc i)"
  proof (cases "j < i")
    case True
    then have "\<not> bs ! i" using cumsum_strict [of j i bs] assms j by auto
    with True show ?thesis by auto
  next
    case False
    with j have lt: "i < j" by simp
    then have S: "Suc i < length bs" using j by simp
    have "\<not> bs ! Suc i"
    proof
      assume "bs ! Suc i"
      then have "cumsum bs ! i < cumsum bs ! Suc i" using cumsum_strict [of i "Suc i" bs] S by simp
      moreover have "cumsum bs ! Suc i \<le> cumsum bs ! j" using lt j by (intro cumsum_mono) simp_all
      ultimately show False using j by simp
    qed
    with S show ?thesis by simp
  qed
next
  assume "(0 < i \<and> \<not> bs ! i) \<or> (Suc i < length bs \<and> \<not> bs ! Suc i)"
  then show "\<exists>j < length bs. j \<noteq> i \<and> cumsum bs ! j = cumsum bs ! i"
  proof
    assume a: "0 < i \<and> \<not> bs ! i"
    then obtain k where k: "i = Suc k" by (cases i) simp_all
    have "cumsum bs ! Suc k = cumsum bs ! k" using cumsum_Suc [of k bs] assms a k by simp
    then show ?thesis using k assms by (intro exI [of _ k]) simp
  next
    assume a: "Suc i < length bs \<and> \<not> bs ! Suc i"
    then have "cumsum bs ! Suc i = cumsum bs ! i" using cumsum_Suc [of i bs] by simp
    then show ?thesis using a by (intro exI [of _ "Suc i"]) simp
  qed
qed

lemma count_list_nth_gt1:
  assumes "i < length xs"
  shows "1 < count_list xs (xs ! i) \<longleftrightarrow> (\<exists>j < length xs. j \<noteq> i \<and> xs ! j = xs ! i)"
proof -
  let ?x = "xs ! i"
  have parts: "xs = take i xs @ ?x # drop (Suc i) xs"
    using assms by (rule id_take_nth_drop)
  have "count_list xs ?x = count_list (take i xs) ?x + 1 + count_list (drop (Suc i) xs) ?x"
    by (subst parts) simp
  then have "1 < count_list xs ?x \<longleftrightarrow> ?x \<in> set (take i xs) \<or> ?x \<in> set (drop (Suc i) xs)"
    using count_list_0_iff [of "take i xs" ?x] count_list_0_iff [of "drop (Suc i) xs" ?x] by auto
  also have "\<dots> \<longleftrightarrow> (\<exists>j < length xs. j \<noteq> i \<and> xs ! j = ?x)"
  proof
    assume "?x \<in> set (take i xs) \<or> ?x \<in> set (drop (Suc i) xs)"
    then show "\<exists>j < length xs. j \<noteq> i \<and> xs ! j = ?x"
    proof
      assume "?x \<in> set (take i xs)"
      then obtain j where "j < length (take i xs)" "take i xs ! j = ?x"
        by (auto simp: in_set_conv_nth)
      then show ?thesis using assms by (intro exI [of _ j]) simp
    next
      assume "?x \<in> set (drop (Suc i) xs)"
      then obtain j where "j < length (drop (Suc i) xs)" "drop (Suc i) xs ! j = ?x"
        by (auto simp: in_set_conv_nth)
      then show ?thesis using assms by (intro exI [of _ "Suc i + j"]) auto
    qed
  next
    assume "\<exists>j < length xs. j \<noteq> i \<and> xs ! j = ?x"
    then obtain j where j: "j < length xs" "j \<noteq> i" "xs ! j = ?x" by blast
    show "?x \<in> set (take i xs) \<or> ?x \<in> set (drop (Suc i) xs)"
    proof (cases "j < i")
      case True
      then have "take i xs ! j = ?x" "j < length (take i xs)" using j assms by simp_all
      then show ?thesis by (metis nth_mem)
    next
      case False
      with j have "Suc i \<le> j" by simp
      then obtain k where k: "j = Suc i + k" using le_Suc_ex by blast
      then have "drop (Suc i) xs ! k = ?x" "k < length (drop (Suc i) xs)" using j by simp_all
      then show ?thesis by (metis nth_mem)
    qed
  qed
  finally show ?thesis .
qed

lemma select_rows_nth:
  "length keep = length rows \<Longrightarrow>
   select_rows rows keep = map ((!) rows) (filter ((!) keep) [0..<length rows])"
proof (induction rows arbitrary: keep rule: rev_induct)
  case Nil
  then show ?case by (simp add: select_rows_def)
next
  case (snoc r rows)
  then obtain k keep' where k: "keep = keep' @ [k]" "length keep' = length rows"
    by (metis length_append_singleton length_Suc_conv_rev)
  let ?n = "length rows"
  have A: "filter ((!) (keep' @ [k])) [0..<?n] = filter ((!) keep') [0..<?n]"
    using k(2) by (intro filter_cong) (simp_all add: nth_append)
  have B: "map ((!) (rows @ [r])) (filter ((!) keep') [0..<?n])
      = map ((!) rows) (filter ((!) keep') [0..<?n])"
    by (intro map_cong) (simp_all add: nth_append)
  have C: "select_rows (rows @ [r]) (keep' @ [k]) = select_rows rows keep' @ (if k then [r] else [])"
    using k(2) by (simp add: select_rows_def)
  have D: "(keep' @ [k]) ! ?n = k" "(rows @ [r]) ! ?n = r"
    using k(2) by (simp_all add: nth_append)
  have "map ((!) (rows @ [r])) (filter ((!) (keep' @ [k])) [0..<length (rows @ [r])])
      = map ((!) (rows @ [r])) (filter ((!) (keep' @ [k])) [0..<?n]) @ (if k then [r] else [])"
    using D by simp
  also have "\<dots> = map ((!) rows) (filter ((!) keep') [0..<?n]) @ (if k then [r] else [])"
    by (simp only: A B)
  also have "\<dots> = select_rows (rows @ [r]) (keep' @ [k])"
    using snoc.IH [OF k(2)] C by simp
  finally show ?case using k(1) by simp
qed

lemma length_shift [simp]: "length (shift n xs) = length xs"
  by (simp add: shift_def)

lemma shift_nth:
  "i < length xs \<Longrightarrow> shift n xs ! i = (if i < n then None else Some (xs ! (i - n)))"
  by (simp add: shift_def nth_append)

lemma length_ne_series [simp]: "length (ne_series xs ps) = min (length xs) (length ps)"
  by (simp add: ne_series_def)

lemma ne_series_nth:
  "i < length xs \<Longrightarrow> i < length ps \<Longrightarrow> ne_series xs ps ! i = (ps ! i \<noteq> Some (xs ! i))"
  by (simp add: ne_series_def)

lemma value_changes_nth:
  "i < length v \<Longrightarrow> ne_series v (shift 1 v) ! i = (i = 0 \<or> v ! (i - 1) \<noteq> v ! i)"
  by (auto simp: ne_series_nth shift_nth)

text \<open>The column \<open>count\<close> is the same two rows apart exactly on three equal values.\<close>

lemma run_id_unchanged_iff:
  assumes "i < length v" "2 \<le> i"
  shows "cumsum (ne_series v (shift 1 v)) ! (i - 2) = cumsum (ne_series v (shift 1 v)) ! i
         \<longleftrightarrow> v ! (i - 2) = v ! (i - 1) \<and> v ! (i - 1) = v ! i"
proof -
  let ?b = "ne_series v (shift 1 v)"
  obtain k where k: "i = Suc (Suc k)" using assms(2) by (metis add_2_eq_Suc le_Suc_ex)
  have "cumsum ?b ! Suc k = cumsum ?b ! k + (if ?b ! Suc k then 1 else 0)"
    using assms k by (intro cumsum_Suc) simp
  moreover have "cumsum ?b ! Suc (Suc k) = cumsum ?b ! Suc k + (if ?b ! Suc (Suc k) then 1 else 0)"
    using assms k by (intro cumsum_Suc) simp
  moreover have "?b ! Suc k = (v ! k \<noteq> v ! Suc k)" "?b ! Suc (Suc k) = (v ! Suc k \<noteq> v ! Suc (Suc k))"
    using assms k value_changes_nth [of "Suc k" v] value_changes_nth [of "Suc (Suc k)" v]
    by simp_all
  ultimately show ?thesis using k by auto
qed

lemma not_equal_nth:
  assumes "i < length v"
  shows "ne_series (cumsum (ne_series v (shift 1 v))) (shift 2 (cumsum (ne_series v (shift 1 v)))) ! i
         \<longleftrightarrow> \<not> (2 \<le> i \<and> v ! (i - 2) = v ! (i - 1) \<and> v ! (i - 1) = v ! i)"
proof (cases "2 \<le> i")
  case True
  then show ?thesis
    using assms run_id_unchanged_iff [OF assms True]
    by (simp add: ne_series_nth shift_nth)
next
  case False
  then show ?thesis using assms by (simp add: ne_series_nth shift_nth)
qed

lemma duplicates_nth:
  assumes "i < length v"
  shows "duplicated_all (cumsum (ne_series (cumsum (ne_series v (shift 1 v)))
           (shift 2 (cumsum (ne_series v (shift 1 v)))))) ! i \<longleftrightarrow> flat_tail v i"
proof -
  let ?ne = "ne_series (cumsum (ne_series v (shift 1 v))) (shift 2 (cumsum (ne_series v (shift 1 v))))"
  have len: "length ?ne = length v" by simp
  have "duplicated_all (cumsum ?ne) ! i \<longleftrightarrow> 1 < count_list (cumsum ?ne) (cumsum ?ne ! i)"
    using assms by (simp add: duplicated_all_def)
  also have "\<dots> \<longleftrightarrow> (\<exists>j < length ?ne. j \<noteq> i \<and> cumsum ?ne ! j = cumsum ?ne ! i)"
    using assms count_list_nth_gt1 [of i "cumsum ?ne"] by simp
  also have "\<dots> \<longleftrightarrow> (0 < i \<and> \<not> ?ne ! i) \<or> (Suc i < length ?ne \<and> \<not> ?ne ! Suc i)"
    using assms by (intro cumsum_repeat_iff) simp
  also have "\<dots> \<longleftrightarrow> flat_tail v i"
  proof (cases "Suc i < length v")
    case True
    then show ?thesis
      using assms not_equal_nth [of i v] not_equal_nth [of "Suc i" v]
      unfolding flat_tail_def len
      by (cases i) (auto simp: numeral_2_eq_2)
  next
    case False
    then show ?thesis
      using assms not_equal_nth [of i v]
      unfolding flat_tail_def len
      by (cases i) (auto simp: numeral_2_eq_2)
  qed
  finally show ?thesis .
qed

text \<open>
  Stage 1 drops exactly the rows that repeat the value before them inside a flat run of
  three or more; the first row of every run stays.
\<close>

lemma R3TCSV_rows:
  "R3TCSV rows = map ((!) rows) (filter (\<lambda>i. \<not> flat_tail (map snd rows) i) [0..<length rows])"
proof -
  let ?v = "map snd rows"
  let ?dup = "duplicated_all (cumsum (ne_series (cumsum (ne_series ?v (shift 1 ?v)))
           (shift 2 (cumsum (ne_series ?v (shift 1 ?v))))))"
  have len: "length (map Not ?dup) = length rows" by (simp add: duplicated_all_def)
  have "R3TCSV rows = select_rows rows (map Not ?dup)"
    by (simp add: R3TCSV_def Let_def)
  also have "\<dots> = map ((!) rows) (filter ((!) (map Not ?dup)) [0..<length rows])"
    using len by (rule select_rows_nth)
  also have "filter ((!) (map Not ?dup)) [0..<length rows]
           = filter (\<lambda>i. \<not> flat_tail ?v i) [0..<length rows]"
  proof (rule filter_cong [OF refl])
    fix i assume "i \<in> set [0..<length rows]"
    then have i: "i < length ?v" by simp
    then have "i < length ?dup" by (simp add: duplicated_all_def)
    then show "map Not ?dup ! i = (\<not> flat_tail ?v i)"
      using duplicates_nth [OF i] by simp
  qed
  finally show ?thesis .
qed


section \<open>Stage 2: which rows RVZ3 keeps\<close>

lemma select_rows_map: "select_rows rows (map f rows) = filter f rows"
  by (induction rows) (simp_all add: select_rows_def)

lemma sum_list_deviation:
  "xs \<noteq> [] \<Longrightarrow> sum_list (map (\<lambda>x. x - sum_list xs / real (length xs)) xs) = 0"
  by (simp add: sum_list_subtractf sum_list_triv)

text \<open>The deviations from the mean have mean zero, so their \<open>std()\<close> is that of the values.\<close>

lemma std_deviation:
  assumes "2 \<le> length xs"
  shows "std (map (\<lambda>x. x - average xs) xs) = Fin (sample_std xs)"
proof -
  have ne: "xs \<noteq> []" using assms by auto
  have "sum_list (map (\<lambda>x. x - average xs) xs) = 0"
    using sum_list_deviation [OF ne] by (simp add: average_def)
  then show ?thesis
    using assms by (simp add: std_def sample_std_def comp_def)
qed

lemma RVZ3_rows:
  "RVZ3 rows =
     (if length rows < 2 then []
      else filter (\<lambda>r. \<bar>snd r - average (map snd rows)\<bar> \<le> 3 * sample_std (map snd rows)) rows)"
proof (cases "length rows < 2")
  case True
  then have "std (map (\<lambda>r. snd r - m) rows) = NaN" for m by (simp add: std_def)
  then have "RVZ3 rows =
      (case mean (map snd rows) of Fin m \<Rightarrow> select_rows rows (map (\<lambda>r. False) rows) | _ \<Rightarrow> [])"
    by (simp add: RVZ3_def Let_def comp_def split: npfloat.splits)
  then show ?thesis using True by (simp add: select_rows_map split: npfloat.splits)
next
  case False
  then have len: "2 \<le> length (map snd rows)" by simp
  then have ne: "rows \<noteq> []" by auto
  have m: "mean (map snd rows) = Fin (average (map snd rows))"
    using ne by (simp add: mean_def average_def)
  have dev: "map (\<lambda>r. snd r - average (map snd rows)) rows
             = map (\<lambda>x. x - average (map snd rows)) (map snd rows)"
    by (simp add: comp_def)
  have "RVZ3 rows = select_rows rows
          (map (\<lambda>r. np_le (Fin \<bar>snd r - average (map snd rows)\<bar>)
                      (np_scale 3 (Fin (sample_std (map snd rows))))) rows)"
    unfolding RVZ3_def m Let_def npfloat.case dev std_deviation [OF len]
    by (simp add: comp_def)
  then show ?thesis using False by (simp add: select_rows_map)
qed

lemma sqrt_bound: "0 \<le> v \<Longrightarrow> (\<bar>d\<bar> \<le> 3 * sqrt v) = (d\<^sup>2 \<le> 9 * v)"
proof -
  assume v: "0 \<le> v"
  have "(\<bar>d\<bar> \<le> 3 * sqrt v) = (\<bar>d\<bar> \<le> sqrt (9 * v))"
    by (simp add: real_sqrt_mult)
  also have "\<dots> = (sqrt (d\<^sup>2) \<le> sqrt (9 * v))" by simp
  also have "\<dots> = (d\<^sup>2 \<le> 9 * v)" by (rule real_sqrt_le_iff)
  finally show ?thesis .
qed

lemma zscore_example_average: "average (map snd zscore_example) = 1"
  by (simp add: zscore_example_def average_def)

lemma zscore_example_sample_std: "sample_std (map snd zscore_example) = sqrt 12"
  by (simp add: zscore_example_average sample_std_def) (simp add: zscore_example_def)

lemma zscore_example_population_std: "population_std (map snd zscore_example) = sqrt (120 / 11)"
  by (simp add: zscore_example_average population_std_def) (simp add: zscore_example_def)

lemma zscore_example_RVZ3: "RVZ3 zscore_example = zscore_example"
  unfolding RVZ3_rows zscore_example_average zscore_example_sample_std
  by (simp add: zscore_example_def sqrt_bound)

lemma zscore_example_R3TCSV: "R3TCSV zscore_example = zscore_example"
  by (simp add: zscore_example_def R3TCSV_def cumsum_def ne_series_def shift_def
      duplicated_all_def select_rows_def)


section \<open>Stage 3: the loop over the water years\<close>

lemma Max_Y_rows:
  "resample water_year_start maximum rows =
     map (\<lambda>l. (l, maximum (map snd (filter (\<lambda>r. water_year_start (fst r) = l) rows)))) (water_years rows)"
  by (simp add: resample_def water_years_def)

lemma Min_Y_rows:
  "resample water_year_start minimum rows =
     map (\<lambda>l. (l, minimum (map snd (filter (\<lambda>r. water_year_start (fst r) = l) rows)))) (water_years rows)"
  by (simp add: resample_def water_years_def)

lemma zip_map_same: "zip (map f xs) (map g xs) = map (\<lambda>x. (f x, g x)) xs"
  by (induction xs) simp_all

lemma Range_Y_rows:
  "map2 (\<lambda>a b. snd a - snd b) (resample water_year_start maximum rows)
     (resample water_year_start minimum rows) = map (year_range rows) (water_years rows)"
  unfolding Max_Y_rows Min_Y_rows zip_map_same
  by (simp add: year_range_def)

text \<open>A loop that flags no year leaves the series as it is.\<close>

lemma RDRVI_loop_none_flagged:
  assumes "\<forall>y \<in> set years.
             \<not> (np_lt (Fin 5) (np_quot (Fin (snd (fst y) - snd (snd y))) (median Range_Y))
                \<or> np_lt (np_quot (Fin (snd (fst y) - snd (snd y))) (median Range_Y)) (Fin 0.2))"
  shows "RDRVI_loop Range_Y years gw = gw"
  using assms
proof (induction years arbitrary: gw)
  case Nil
  then show ?case by simp
next
  case (Cons y years)
  obtain l mx l' mn where y: "y = ((l, mx), (l', mn))" by (metis surj_pair)
  from Cons.prems have "RDRVI_loop Range_Y years gw = gw"
    by (intro Cons.IH) simp
  with Cons.prems show ?case by (simp add: y Let_def)
qed

lemma np_within_not_flagged:
  "np_le (Fin 0.2) R \<Longrightarrow> np_le R (Fin 5) \<Longrightarrow> \<not> (np_lt (Fin 5) R \<or> np_lt R (Fin 0.2))"
  by (cases R) simp_all

lemma RDRVI_within_bounds:
  assumes "rvi_within_bounds rows"
  shows "RDRVI rows = rows"
proof -
  let ?years = "map (\<lambda>l. ((l, maximum (map snd (filter (\<lambda>r. water_year_start (fst r) = l) rows))),
                         (l, minimum (map snd (filter (\<lambda>r. water_year_start (fst r) = l) rows)))))
                 (water_years rows)"
  have "RDRVI rows = RDRVI_loop (map (year_range rows) (water_years rows)) ?years rows"
    unfolding RDRVI_def Let_def Range_Y_rows
    by (simp add: Max_Y_rows Min_Y_rows zip_map_same)
  also have "\<dots> = rows"
  proof (rule RDRVI_loop_none_flagged, rule ballI)
    fix y assume "y \<in> set ?years"
    then obtain l where l: "l \<in> set (water_years rows)"
      and y: "snd (fst y) - snd (snd y) = year_range rows l"
      by (auto simp: year_range_def)
    from assms l have "np_le (Fin 0.2) (RVI_of rows l)" "np_le (RVI_of rows l) (Fin 5)"
      by (simp_all add: rvi_within_bounds_def)
    then show "\<not> (np_lt (Fin 5) (np_quot (Fin (snd (fst y) - snd (snd y)))
                     (median (map (year_range rows) (water_years rows))))
                \<or> np_lt (np_quot (Fin (snd (fst y) - snd (snd y)))
                     (median (map (year_range rows) (water_years rows)))) (Fin 0.2))"
      unfolding y using np_within_not_flagged by (simp add: RVI_of_def)
  qed
  finally show ?thesis .
qed

lemma rdrvi_example_Max_Y:
  "resample water_year_start maximum rdrvi_example =
     [(Date 2000 10 1, 11), (Date 2001 10 1, 11), (Date 2002 10 1, 30), (Date 2003 10 1, 11)]"
  by (simp add: rdrvi_example_def resample_def water_year_start_def maximum_def date_key_def)

lemma rdrvi_example_Min_Y:
  "resample water_year_start minimum rdrvi_example =
     [(Date 2000 10 1, 10), (Date 2001 10 1, 10), (Date 2002 10 1, 10), (Date 2003 10 1, 10)]"
  by (simp add: rdrvi_example_def resample_def water_year_start_def minimum_def date_key_def)

lemma rdrvi_example_median: "median [1, 1, 20, 1] = Fin 1"
  by (simp add: median_def)

lemma rdrvi_example_RVZ3: "RVZ3 rdrvi_example = rdrvi_example"
proof -
  have a: "average (map snd rdrvi_example) = 103 / 8"
    by (simp add: rdrvi_example_def average_def)
  have s: "sample_std (map snd rdrvi_example) = sqrt (385 / 8)"
    by (simp add: a sample_std_def) (simp add: rdrvi_example_def power2_eq_square)
  show ?thesis
    unfolding RVZ3_rows a s by (simp add: rdrvi_example_def sqrt_bound power2_eq_square)
qed

lemma rdrvi_example_R3TCSV: "R3TCSV rdrvi_example = rdrvi_example"
  by (simp add: rdrvi_example_def R3TCSV_def cumsum_def ne_series_def shift_def
      duplicated_all_def select_rows_def)


section \<open>The quality filter on series within its bounds, and run twice\<close>

lemma R3TCSV_no_flat_run3:
  assumes "no_flat_run3 (map snd rows)"
  shows "R3TCSV rows = rows"
proof -
  let ?v = "map snd rows"
  have "\<not> flat_tail ?v i" if "i < length rows" for i
  proof
    assume f: "flat_tail ?v i"
    then obtain k where k: "i = Suc k" by (cases i) (simp_all add: flat_tail_def)
    from f k consider (before) "2 \<le> i" "?v ! (i - 2) = ?v ! i" | (after) "Suc i < length ?v" "?v ! Suc i = ?v ! i"
      unfolding flat_tail_def by blast
    then show False
    proof cases
      case before
      then obtain j where j: "k = Suc j" using k by (cases k) simp_all
      have "j + 2 < length ?v" using that k j by simp
      moreover have "?v ! j = ?v ! (j + 1)" "?v ! (j + 1) = ?v ! (j + 2)"
        using f before k j by (simp_all add: flat_tail_def)
      ultimately show False using assms unfolding no_flat_run3_def by blast
    next
      case after
      have "k + 2 < length ?v" using after k by simp
      moreover have "?v ! k = ?v ! (k + 1)" "?v ! (k + 1) = ?v ! (k + 2)"
        using f after k by (simp_all add: flat_tail_def)
      ultimately show False using assms unfolding no_flat_run3_def by blast
    qed
  qed
  then have "filter (\<lambda>i. \<not> flat_tail ?v i) [0..<length rows] = [0..<length rows]"
    by (intro filter_True) simp
  then show ?thesis by (simp add: R3TCSV_rows map_nth)
qed

lemma RVZ3_within_three_std:
  assumes "within_three_std (map snd rows)"
  shows "RVZ3 rows = rows"
proof -
  from assms have "\<not> length rows < 2" by (simp add: within_three_std_def)
  moreover from assms have
    "filter (\<lambda>r. \<bar>snd r - average (map snd rows)\<bar> \<le> 3 * sample_std (map snd rows)) rows = rows"
    by (intro filter_True) (simp add: within_three_std_def)
  ultimately show ?thesis by (simp add: RVZ3_rows)
qed

lemma quality_control_within_bounds:
  assumes "no_flat_run3 (map snd rows)" "within_three_std (map snd rows)" "rvi_within_bounds rows"
  shows "quality_control rows = rows"
  using assms
  by (simp add: quality_control_def R3TCSV_no_flat_run3 RVZ3_within_three_std RDRVI_within_bounds)

lemma clean_example_no_flat_run3: "no_flat_run3 (map snd clean_example)"
  unfolding no_flat_run3_def
proof
  assume "\<exists>i. i + 2 < length (map snd clean_example) \<and>
      map snd clean_example ! i = map snd clean_example ! (i + 1) \<and>
      map snd clean_example ! (i + 1) = map snd clean_example ! (i + 2)"
  then obtain i where i: "i + 2 < length (map snd clean_example)"
    and e: "map snd clean_example ! i = map snd clean_example ! (i + 1)" by blast
  from i have "i = 0 \<or> i = 1" by (simp add: clean_example_def) arith
  then show False using e by (auto simp: clean_example_def)
qed

lemma clean_example_within_three_std: "within_three_std (map snd clean_example)"
proof -
  have a: "average (map snd clean_example) = 21 / 2"
    by (simp add: clean_example_def average_def)
  have s: "sample_std (map snd clean_example) = sqrt (1 / 3)"
    by (simp add: a sample_std_def) (simp add: clean_example_def power2_eq_square)
  show ?thesis
    unfolding within_three_std_def a s
    by (simp add: clean_example_def sqrt_bound power2_eq_square)
qed

lemma clean_example_rvi_within_bounds: "rvi_within_bounds clean_example"
proof -
  have w: "water_years clean_example = [Date 2000 10 1, Date 2001 10 1]"
    by (simp add: water_years_def clean_example_def water_year_start_def date_key_def)
  have r: "map (year_range clean_example) [Date 2000 10 1, Date 2001 10 1] = [1, 1]"
    by (simp add: year_range_def clean_example_def water_year_start_def maximum_def minimum_def)
  have m: "median [1, 1] = Fin 1" by (simp add: median_def)
  show ?thesis
    unfolding rvi_within_bounds_def RVI_of_def w r m
    using r by (simp add: np_div_def)
qed

lemma idempotence_example_R3TCSV: "R3TCSV idempotence_example = idempotence_example"
  by (simp add: idempotence_example_def R3TCSV_def cumsum_def ne_series_def shift_def
      duplicated_all_def select_rows_def)

lemma idempotence_example_RVZ3: "RVZ3 idempotence_example = idempotence_example"
proof -
  have a: "average (map snd idempotence_example) = 27 / 2"
    by (simp add: idempotence_example_def average_def)
  have s: "sample_std (map snd idempotence_example) = sqrt (340 / 7)"
    by (simp add: a sample_std_def) (simp add: idempotence_example_def power2_eq_square)
  show ?thesis
    unfolding RVZ3_rows a s by (simp add: idempotence_example_def sqrt_bound power2_eq_square)
qed

lemma idempotence_example_RDRVI: "RDRVI idempotence_example = idempotence_example_once"
proof -
  have mx: "resample water_year_start maximum idempotence_example =
     [(Date 2000 10 1, 11), (Date 2001 10 1, 11), (Date 2002 10 1, 16), (Date 2003 10 1, 30)]"
    by (simp add: idempotence_example_def resample_def water_year_start_def maximum_def date_key_def)
  have mn: "resample water_year_start minimum idempotence_example =
     [(Date 2000 10 1, 10), (Date 2001 10 1, 10), (Date 2002 10 1, 10), (Date 2003 10 1, 10)]"
    by (simp add: idempotence_example_def resample_def water_year_start_def minimum_def date_key_def)
  have m: "median [1, 1, 6, 20] = Fin (7 / 2)" by (simp add: median_def)
  show ?thesis
    unfolding RDRVI_def mx mn Let_def
    by (simp add: m np_div_def date_le_def add_years_def days_in_month_def date_key_def
        idempotence_example_def idempotence_example_once_def)
qed

lemma idempotence_example_once_R3TCSV: "R3TCSV idempotence_example_once = idempotence_example_once"
  by (simp add: idempotence_example_once_def R3TCSV_def cumsum_def ne_series_def shift_def
      duplicated_all_def select_rows_def)

lemma idempotence_example_once_RVZ3: "RVZ3 idempotence_example_once = idempotence_example_once"
proof -
  have a: "average (map snd idempotence_example_once) = 34 / 3"
    by (simp add: idempotence_example_once_def average_def)
  have s: "sample_std (map snd idempotence_example_once) = sqrt (82 / 15)"
    by (simp add: a sample_std_def) (simp add: idempotence_example_once_def power2_eq_square)
  show ?thesis
    unfolding RVZ3_rows a s by (simp add: idempotence_example_once_def sqrt_bound power2_eq_square)
qed

lemma idempotence_example_once_RDRVI: "RDRVI idempotence_example_once = clean_example"
proof -
  have mx: "resample water_year_start maximum idempotence_example_once =
     [(Date 2000 10 1, 11), (Date 2001 10 1, 11), (Date 2002 10 1, 16)]"
    by (simp add: idempotence_example_once_def resample_def water_year_start_def maximum_def date_key_def)
  have mn: "resample water_year_start minimum idempotence_example_once =
     [(Date 2000 10 1, 10), (Date 2001 10 1, 10), (Date 2002 10 1, 10)]"
    by (simp add: idempotence_example_once_def resample_def water_year_start_def minimum_def date_key_def)
  have m: "median [1, 1, 6] = Fin 1" by (simp add: median_def)
  show ?thesis
    unfolding RDRVI_def mx mn Let_def
    by (simp add: m np_div_def date_le_def add_years_def days_in_month_def date_key_def
        idempotence_example_once_def clean_example_def)
qed


section \<open>The per-station report\<close>

lemma nine_year_station_annual:
  "annual_series nine_year_station =
     [(Date 2000 10 1, 5), (Date 2001 10 1, 5), (Date 2002 10 1, 5), (Date 2003 10 1, 5),
      (Date 2004 10 1, 5), (Date 2005 10 1, 5), (Date 2006 10 1, 5), (Date 2007 10 1, 5),
      (Date 2008 10 1, 5)]"
  by code_simp

lemma eight_year_station_annual:
  "annual_series eight_year_station =
     [(Date 2000 10 1, 5), (Date 2001 10 1, 5), (Date 2002 10 1, 5), (Date 2003 10 1, 5),
      (Date 2004 10 1, 5), (Date 2005 10 1, 5), (Date 2006 10 1, 5), (Date 2007 10 1, 5)]"
  by code_simp

text \<open>DownloadData.py: the sentinel below the two thresholds, the statistics above them.\<close>

lemma station_info_sentinel:
  "length gd \<le> 100 \<or> length (annual_series gd) \<le> 8 \<Longrightarrow>
   station_info gd = (Sentinel ''no enough data'', None)"
  by (simp add: station_info_def Let_def)

lemma station_info_qualified:
  assumes "100 < length gd" "8 < length (annual_series gd)"
    "0 < average (map snd (annual_series gd))"
  shows "snd (station_info gd) = Some (annual_series gd)"
proof -
  have "annual_series gd \<noteq> []" using assms(2) by auto
  then have "mean (map snd (annual_series gd)) = Fin (average (map snd (annual_series gd)))"
    by (simp add: mean_def average_def)
  then show ?thesis
    using assms by (simp add: station_info_def Let_def)
qed


section \<open>The classifier\<close>

lemma length_sequence_column [simp]: "length (sequence_column YMG) = length YMG"
  by (simp add: sequence_column_def)


lemma fit_metrics_unfold:
  assumes "2 \<le> length YMG"
  shows "fit_metrics solve YMG =
     (case piecewise_fit solve YMG of
        Inl e \<Rightarrow> Inl e
      | Inr ps \<Rightarrow>
          (case ps of (p0, p1, p2, p3) \<Rightarrow>
             Inr (np_rsub 1
                    (np_div (sum_list (map2 (\<lambda>t y. (t - y)\<^sup>2)
                               (map (\<lambda>x. piecewise x ps) (map real_of_int (sequence_column YMG)))
                               (map snd YMG)))
                       (sum_list (map (\<lambda>y. (y - average (map snd YMG))\<^sup>2) (map snd YMG)))),
                  year_count
                    (if p0 < p1 then add_years (fst (hd YMG)) (py_round (p0 - 1))
                     else add_years (fst (hd YMG)) (py_round (p1 - 1)))
                    (if p0 < p1
                     then add_years (add_years (fst (hd YMG)) (py_round (p0 - 1))) (py_round (p1 - p0))
                     else add_years (add_years (fst (hd YMG)) (py_round (p1 - 1))) (py_round (p0 - p1))),
                  year_count (fst (hd YMG)) (fst (last YMG)),
                  (if p0 < p1 then add_years (fst (hd YMG)) (py_round (p0 - 1))
                   else add_years (fst (hd YMG)) (py_round (p1 - 1))),
                  (if p0 < p1
                   then add_years (add_years (fst (hd YMG)) (py_round (p0 - 1))) (py_round (p1 - p0))
                   else add_years (add_years (fst (hd YMG)) (py_round (p1 - 1))) (py_round (p0 - p1))))))"
  using assms
  by (simp add: fit_metrics_def suddenchange_def piecewise_fit_def Let_def
      split: sum.splits prod.splits)



text \<open>With the three names bound, \<open>classidication\<close> is its decision tree.\<close>

lemma classidication_unfold:
  assumes "np_bound L" "stats_bound L" "curve_fit_bound L = Some solve"
  shows "classidication L V YMG =
     (if YMG = [] then Inl IndexError
      else if np_lt (robust_slope YMG) (Fin (- dead_zone V)) then
        (case fit_metrics solve YMG of
           Inl e \<Rightarrow> Inl e
         | Inr (R2, w, total_year, sy, ey) \<Rightarrow>
             (case step_change R2 w total_year of
                Inl e \<Rightarrow> Inl e
              | Inr sudden \<Rightarrow>
                  Inr \<lparr>label =
                         (if sudden then ''Sudden upward change''
                          else if list_all (\<lambda>item. np_lt item (Fin 0.1)) (loo_slopes YMG)
                          then steady_up V else ''No trend''),
                       ts_slope = robust_slope YMG, pw_R2 = R2, windows = w,
                       start_year = sy, end_year = ey\<rparr>))
      else if np_lt (Fin (dead_zone V)) (robust_slope YMG) then
        (case fit_metrics solve YMG of
           Inl e \<Rightarrow> Inl e
         | Inr (R2, w, total_year, sy, ey) \<Rightarrow>
             (case step_change R2 w total_year of
                Inl e \<Rightarrow> Inl e
              | Inr sudden \<Rightarrow>
                  Inr \<lparr>label =
                         (if sudden then ''Sudden downward change''
                          else if list_all (\<lambda>item. np_lt (Fin (- 0.02)) item) (loo_slopes YMG)
                          then steady_down V else ''No trend''),
                       ts_slope = robust_slope YMG, pw_R2 = R2, windows = w,
                       start_year = sy, end_year = ey\<rparr>))
      else
        (case fit_metrics solve YMG of
           Inl e \<Rightarrow> Inl e
         | Inr (R2, w, total_year, sy, ey) \<Rightarrow>
             Inr \<lparr>label = ''No trend'', ts_slope = robust_slope YMG, pw_R2 = R2, windows = w,
                  start_year = sy, end_year = ey\<rparr>))"
  unfolding classidication_def robust_slope_def fit_metrics_def loo_slopes_def Let_def assms
  using assms(1,2) by simp

text \<open>With one of the names unbound, every call on a series with a row raises.\<close>

lemma classidication_unbound:
  assumes "YMG \<noteq> []" "\<not> np_bound L \<or> \<not> stats_bound L \<or> curve_fit_bound L = None"
  shows "classidication L V YMG = Inl NameError"
  using assms by (auto simp: classidication_def suddenchange_def Let_def)







lemma classidication_up_result:
  assumes "np_bound L" "stats_bound L" "curve_fit_bound L = Some solve"
    and "YMG \<noteq> []" "np_lt (robust_slope YMG) (Fin (- dead_zone V))"
    and "fit_metrics solve YMG = Inr (R2, w, t, sy, ey)" "step_change R2 w t = Inr b"
  shows "classidication L V YMG =
     Inr \<lparr>label = (if b then ''Sudden upward change''
                   else if list_all (\<lambda>item. np_lt item (Fin 0.1)) (loo_slopes YMG)
                   then steady_up V else ''No trend''),
          ts_slope = robust_slope YMG, pw_R2 = R2, windows = w, start_year = sy, end_year = ey\<rparr>"
  using assms(4-) by (simp add: classidication_unfold [OF assms(1-3)])

lemma classidication_down_result:
  assumes "np_bound L" "stats_bound L" "curve_fit_bound L = Some solve"
    and "YMG \<noteq> []" "\<not> np_lt (robust_slope YMG) (Fin (- dead_zone V))"
    and "np_lt (Fin (dead_zone V)) (robust_slope YMG)"
    and "fit_metrics solve YMG = Inr (R2, w, t, sy, ey)" "step_change R2 w t = Inr b"
  shows "classidication L V YMG =
     Inr \<lparr>label = (if b then ''Sudden downward change''
                   else if list_all (\<lambda>item. np_lt (Fin (- 0.02)) item) (loo_slopes YMG)
                   then steady_down V else ''No trend''),
          ts_slope = robust_slope YMG, pw_R2 = R2, windows = w, start_year = sy, end_year = ey\<rparr>"
  using assms(4-) by (simp add: classidication_unfold [OF assms(1-3)])





text \<open>Leaving out one row of a series with distinct dates.\<close>

lemma filter_neq_nth:
  assumes "distinct (map f xs)" "r < length xs"
  shows "filter (\<lambda>x. f x \<noteq> f (xs ! r)) xs = take r xs @ drop (Suc r) xs"
proof -
  have parts: "xs = take r xs @ xs ! r # drop (Suc r) xs"
    using assms(2) by (rule id_take_nth_drop)
  have d: "distinct (map f (take r xs) @ f (xs ! r) # map f (drop (Suc r) xs))"
    using assms(1) by (subst (asm) parts) simp
  then have na: "f (xs ! r) \<notin> f ` set (take r xs)"
    and nb: "f (xs ! r) \<notin> f ` set (drop (Suc r) xs)"
    by auto
  have a: "\<forall>x \<in> set (take r xs). f x \<noteq> f (xs ! r)"
    using na by (metis imageI)
  have b: "\<forall>x \<in> set (drop (Suc r) xs). f x \<noteq> f (xs ! r)"
    using nb by (metis imageI)
  have "filter (\<lambda>x. f x \<noteq> f (xs ! r)) (take r xs @ xs ! r # drop (Suc r) xs)
        = take r xs @ drop (Suc r) xs"
    using a b by (simp add: filter_id_conv)
  then show ?thesis using parts by simp
qed

lemma map_fst_of_zip:
  "length xs = length ys \<Longrightarrow> map (\<lambda>row. g (fst row)) (zip xs ys) = map g xs"
  by (induct rule: list_induct2) simp_all

lemma map_snd_of_zip:
  "length xs = length ys \<Longrightarrow> map (\<lambda>row. h (snd row)) (zip xs ys) = map h ys"
  by (induct rule: list_induct2) simp_all

lemma zip_without:
  assumes "length xs = length ys"
  shows "take r (zip xs ys) @ drop (Suc r) (zip xs ys)
         = zip (take r xs @ drop (Suc r) xs) (take r ys @ drop (Suc r) ys)"
proof -
  have "length (take r xs) = length (take r ys)" using assms by simp
  then have "zip (take r xs @ drop (Suc r) xs) (take r ys @ drop (Suc r) ys)
      = zip (take r xs) (take r ys) @ zip (drop (Suc r) xs) (drop (Suc r) ys)"
    by (rule zip_append)
  then show ?thesis by (simp only: take_zip drop_zip)
qed

lemma length_loo_slopes: "length (loo_slopes YMG) = length YMG"
  by (simp add: loo_slopes_def trendstable_def)

lemma loo_slopes_nth:
  assumes "distinct (map fst YMG)" "r < length YMG"
  shows "loo_slopes YMG ! r = slope_without YMG r"
proof -
  let ?sq = "sequence_column YMG"
  let ?Z = "zip YMG ?sq"
  let ?A = "take r YMG @ drop (Suc r) YMG"
  let ?B = "take r ?sq @ drop (Suc r) ?sq"
  have len: "length YMG = length ?sq" by simp
  have lz: "r < length ?Z" using assms(2) by simp
  have "map (\<lambda>row. fst (fst row)) ?Z = map fst YMG"
    using len by (rule map_fst_of_zip)
  then have d: "distinct (map (\<lambda>row. fst (fst row)) ?Z)" using assms(1) by simp
  have "drop_label ?Z r = take r ?Z @ drop (Suc r) ?Z"
    unfolding drop_label_def using d lz by (rule filter_neq_nth)
  also have "\<dots> = zip ?A ?B" using len by (rule zip_without)
  finally have dl: "drop_label ?Z r = zip ?A ?B" .
  have lab: "length ?A = length ?B" by simp
  have v: "map (\<lambda>row. snd (fst row)) (zip ?A ?B) = map snd ?A"
    using lab by (rule map_fst_of_zip)
  have s: "map (\<lambda>row. real_of_int (snd row)) (zip ?A ?B) = map real_of_int ?B"
    using lab by (rule map_snd_of_zip)
  have "loo_slopes YMG ! r =
      theilslopes (map (\<lambda>row. snd (fst row)) (drop_label ?Z r))
        (map (\<lambda>row. real_of_int (snd row)) (drop_label ?Z r))"
    using assms(2) by (simp add: loo_slopes_def trendstable_def Let_def)
  then show ?thesis unfolding dl v s slope_without_def .
qed

text \<open>With the imports of the file itself, no series with a row is classified.\<close>

lemma classidication_file_imports:
  "YMG \<noteq> [] \<Longrightarrow> classidication file_imports V YMG = Inl NameError"
  by (rule classidication_unbound) (simp_all add: file_imports_def)

section \<open>The classifier on the examples\<close>




lemma falling_example_sequence: "sequence_column falling_example = [1, 2, 3, 4]"
  by (simp add: sequence_column_def falling_example_def py_int_def day_number_def)

lemma rising_example_sequence: "sequence_column rising_example = [1, 2, 3, 4]"
  by (simp add: sequence_column_def rising_example_def py_int_def day_number_def)

lemma two_year_example_sequence: "sequence_column two_year_example = [1, 2]"
  by (simp add: sequence_column_def two_year_example_def py_int_def day_number_def)




lemma theilslopes_falling: "theilslopes [10, 8, 6, 4] [1, 2, 3, 4] = Fin (- 2)"
  by code_simp

lemma theilslopes_rising: "theilslopes [4, 6, 8, 10] [1, 2, 3, 4] = Fin 2"
  by code_simp

lemma theilslopes_two_year: "theilslopes [10, 2] [1, 2] = Fin (- 8)"
  by code_simp




lemma falling_example_slope: "robust_slope falling_example = Fin (- 2)"
  unfolding robust_slope_def falling_example_sequence
  by (simp add: falling_example_def theilslopes_falling)

lemma rising_example_slope: "robust_slope rising_example = Fin 2"
  unfolding robust_slope_def rising_example_sequence
  by (simp add: rising_example_def theilslopes_rising)

lemma two_year_example_slope: "robust_slope two_year_example = Fin (- 8)"
  unfolding robust_slope_def two_year_example_sequence
  by (simp add: two_year_example_def theilslopes_two_year)

lemma fit_metrics_value:
  assumes "2 \<le> length YMG" "piecewise_fit solve YMG = Inr (p0, p1, p2, p3)" "p0 < p1"
    and "sequence_column YMG = sq" "map snd YMG = yy"
    and "sum_list (map2 (\<lambda>t y. (t - y)\<^sup>2)
           (map (\<lambda>x. piecewise x (p0, p1, p2, p3)) (map real_of_int sq)) yy) = ssr"
    and "sum_list (map (\<lambda>y. (y - average yy)\<^sup>2) yy) = sst"
    and "add_years (fst (hd YMG)) (py_round (p0 - 1)) = sy"
    and "add_years sy (py_round (p1 - p0)) = ey"
    and "year_count sy ey = w" "year_count (fst (hd YMG)) (fst (last YMG)) = t"
  shows "fit_metrics solve YMG = Inr (np_rsub 1 (np_div ssr sst), w, t, sy, ey)"
  unfolding fit_metrics_unfold [OF assms(1)] assms(2)
  using assms(3-) by simp




lemma falling_example_values: "map snd falling_example = [10, 8, 6, 4]"
  by (simp add: falling_example_def)

lemma rising_example_values: "map snd rising_example = [4, 6, 8, 10]"
  by (simp add: rising_example_def)


lemma example_lengths:
  "length step_down_example = 9" "length step_up_example = 9" "length flat_example = 9"
  "length falling_example = 4" "length rising_example = 4" "length two_year_example = 2"
  by (simp_all add: step_down_example_def step_up_example_def flat_example_def
      falling_example_def rising_example_def two_year_example_def)

lemma py_round_numerals:
  "py_round 2 = 2" "py_round 10 = 10" "py_round 5 = 5" "py_round 4 = 4" "py_round 1 = 1"
  "py_round 3 = 3" "py_round 6 = 6"
  by (simp_all add: py_round_def)





lemma falling_example_fit:
  "piecewise_fit guess_solver falling_example = Inr (2, 3, 4, 10)"
  unfolding piecewise_fit_def falling_example_sequence falling_example_values example_lengths
  by (simp add: curve_fit_def guess_solver_def minimum_def maximum_def py_round_numerals)

lemma rising_example_fit:
  "piecewise_fit guess_solver rising_example = Inr (2, 3, 4, 10)"
  unfolding piecewise_fit_def rising_example_sequence rising_example_values example_lengths
  by (simp add: curve_fit_def guess_solver_def minimum_def maximum_def py_round_numerals)


lemma example_first_last:
  "fst (hd step_down_example) = Date 2000 10 1" "fst (last step_down_example) = Date 2008 10 1"
  "fst (hd step_up_example) = Date 2000 10 1" "fst (last step_up_example) = Date 2008 10 1"
  "fst (hd flat_example) = Date 2000 10 1" "fst (last flat_example) = Date 2008 10 1"
  "fst (hd falling_example) = Date 2000 10 1" "fst (last falling_example) = Date 2003 10 1"
  "fst (hd rising_example) = Date 2000 10 1" "fst (last rising_example) = Date 2003 10 1"
  by (simp_all add: step_down_example_def step_up_example_def flat_example_def
      falling_example_def rising_example_def)

lemma example_add_years:
  "add_years (Date 2000 10 1) 3 = Date 2003 10 1" "add_years (Date 2003 10 1) 2 = Date 2005 10 1"
  "add_years (Date 2000 10 1) 1 = Date 2001 10 1" "add_years (Date 2001 10 1) 6 = Date 2007 10 1"
  "add_years (Date 2001 10 1) 1 = Date 2002 10 1"
  by (simp_all add: add_years_def days_in_month_def is_leap_def)

lemma example_year_counts:
  "year_count (Date 2003 10 1) (Date 2005 10 1) = 3"
  "year_count (Date 2000 10 1) (Date 2008 10 1) = 9"
  "year_count (Date 2001 10 1) (Date 2007 10 1) = 7"
  "year_count (Date 2001 10 1) (Date 2002 10 1) = 2"
  "year_count (Date 2000 10 1) (Date 2003 10 1) = 4"
  by (simp_all add: year_count_def py_int_def day_number_def)

lemma py_round_differences:
  "py_round (4 - 1) = 3" "py_round (6 - 4) = 2" "py_round (2 - 1) = 1" "py_round (8 - 2) = 6"
  "py_round (3 - 2) = 1"
  by (simp_all add: py_round_def)




lemma falling_example_metrics:
  "fit_metrics guess_solver falling_example
   = Inr (Fin (- (21 / 5)), 2, 4, Date 2001 10 1, Date 2002 10 1)"
proof -
  have len: "2 \<le> length falling_example" by (simp add: example_lengths)
  have lt: "(2::real) < 3" by simp
  have ssr: "sum_list (map2 (\<lambda>t y. (t - y)\<^sup>2)
           (map (\<lambda>x. piecewise x (2, 3, 4, 10)) (map real_of_int [1, 2, 3, 4]))
           [10, 8, 6, 4]) = 104"
    by (simp add: piecewise_def)
  have sst: "sum_list (map (\<lambda>y. (y - average [10, 8, 6, 4])\<^sup>2) [10, 8, 6, 4]) = 20"
    by (simp add: average_def)
  have sy: "add_years (fst (hd falling_example)) (py_round (2 - 1)) = Date 2001 10 1"
    unfolding example_first_last py_round_differences by (rule example_add_years)
  have ey: "add_years (Date 2001 10 1) (py_round (3 - 2)) = Date 2002 10 1"
    unfolding py_round_differences by (rule example_add_years)
  have w: "year_count (Date 2001 10 1) (Date 2002 10 1) = 2" by (rule example_year_counts)
  have t: "year_count (fst (hd falling_example)) (fst (last falling_example)) = 4"
    unfolding example_first_last by (rule example_year_counts)
  have "fit_metrics guess_solver falling_example
        = Inr (np_rsub 1 (np_div 104 20), 2, 4, Date 2001 10 1, Date 2002 10 1)"
    by (rule fit_metrics_value [OF len falling_example_fit lt falling_example_sequence
          falling_example_values ssr sst sy ey w t])
  then show ?thesis by (simp add: np_div_def)
qed

lemma rising_example_metrics:
  "fit_metrics guess_solver rising_example
   = Inr (Fin (3 / 5), 2, 4, Date 2001 10 1, Date 2002 10 1)"
proof -
  have len: "2 \<le> length rising_example" by (simp add: example_lengths)
  have lt: "(2::real) < 3" by simp
  have ssr: "sum_list (map2 (\<lambda>t y. (t - y)\<^sup>2)
           (map (\<lambda>x. piecewise x (2, 3, 4, 10)) (map real_of_int [1, 2, 3, 4]))
           [4, 6, 8, 10]) = 8"
    by (simp add: piecewise_def)
  have sst: "sum_list (map (\<lambda>y. (y - average [4, 6, 8, 10])\<^sup>2) [4, 6, 8, 10]) = 20"
    by (simp add: average_def)
  have sy: "add_years (fst (hd rising_example)) (py_round (2 - 1)) = Date 2001 10 1"
    unfolding example_first_last py_round_differences by (rule example_add_years)
  have ey: "add_years (Date 2001 10 1) (py_round (3 - 2)) = Date 2002 10 1"
    unfolding py_round_differences by (rule example_add_years)
  have w: "year_count (Date 2001 10 1) (Date 2002 10 1) = 2" by (rule example_year_counts)
  have t: "year_count (fst (hd rising_example)) (fst (last rising_example)) = 4"
    unfolding example_first_last by (rule example_year_counts)
  have "fit_metrics guess_solver rising_example
        = Inr (np_rsub 1 (np_div 8 20), 2, 4, Date 2001 10 1, Date 2002 10 1)"
    by (rule fit_metrics_value [OF len rising_example_fit lt rising_example_sequence
          rising_example_values ssr sst sy ey w t])
  then show ?thesis by (simp add: np_div_def)
qed

lemma scipy_imports_bound:
  "np_bound (scipy_imports solve)" "stats_bound (scipy_imports solve)"
  "curve_fit_bound (scipy_imports solve) = Some solve"
  by (simp_all add: scipy_imports_def)

lemma file_imports_unbound:
  "\<not> np_bound file_imports" "\<not> stats_bound file_imports" "curve_fit_bound file_imports = None"
  by (simp_all add: file_imports_def)

lemma theilslopes_falling_without:
  "theilslopes [8, 6, 4] [2, 3, 4] = Fin (- 2)" "theilslopes [10, 6, 4] [1, 3, 4] = Fin (- 2)"
  "theilslopes [10, 8, 4] [1, 2, 4] = Fin (- 2)" "theilslopes [10, 8, 6] [1, 2, 3] = Fin (- 2)"
  by code_simp+

lemma theilslopes_rising_without:
  "theilslopes [6, 8, 10] [2, 3, 4] = Fin 2" "theilslopes [4, 8, 10] [1, 3, 4] = Fin 2"
  "theilslopes [4, 6, 10] [1, 2, 4] = Fin 2" "theilslopes [4, 6, 8] [1, 2, 3] = Fin 2"
  by code_simp+

lemma below_four: "r < 4 \<Longrightarrow> r = 0 \<or> r = 1 \<or> r = 2 \<or> r = (3::nat)"
  by arith

lemma falling_example_without:
  assumes "r < 4"
  shows "slope_without falling_example r = Fin (- 2)"
proof -
  have "slope_without falling_example 0 = Fin (- 2)"
    unfolding slope_without_def falling_example_sequence
    by (simp add: falling_example_def theilslopes_falling_without)
  moreover have "slope_without falling_example 1 = Fin (- 2)"
    unfolding slope_without_def falling_example_sequence
    by (simp add: falling_example_def theilslopes_falling_without)
  moreover have "slope_without falling_example 2 = Fin (- 2)"
    unfolding slope_without_def falling_example_sequence
    by (simp add: falling_example_def theilslopes_falling_without)
  moreover have "slope_without falling_example 3 = Fin (- 2)"
    unfolding slope_without_def falling_example_sequence
    by (simp add: falling_example_def theilslopes_falling_without)
  ultimately show ?thesis using below_four [OF assms] by blast
qed

lemma rising_example_without:
  assumes "r < 4"
  shows "slope_without rising_example r = Fin 2"
proof -
  have "slope_without rising_example 0 = Fin 2"
    unfolding slope_without_def rising_example_sequence
    by (simp add: rising_example_def theilslopes_rising_without)
  moreover have "slope_without rising_example 1 = Fin 2"
    unfolding slope_without_def rising_example_sequence
    by (simp add: rising_example_def theilslopes_rising_without)
  moreover have "slope_without rising_example 2 = Fin 2"
    unfolding slope_without_def rising_example_sequence
    by (simp add: rising_example_def theilslopes_rising_without)
  moreover have "slope_without rising_example 3 = Fin 2"
    unfolding slope_without_def rising_example_sequence
    by (simp add: rising_example_def theilslopes_rising_without)
  ultimately show ?thesis using below_four [OF assms] by blast
qed

lemma example_distinct_dates:
  "distinct (map fst falling_example)" "distinct (map fst rising_example)"
  by (simp_all add: falling_example_def rising_example_def)

lemma falling_example_loo:
  assumes "r < 4"
  shows "loo_slopes falling_example ! r = Fin (- 2)"
proof -
  have "r < length falling_example" using assms by (simp add: example_lengths)
  from loo_slopes_nth [OF example_distinct_dates(1) this] falling_example_without [OF assms]
  show ?thesis by simp
qed

lemma rising_example_loo:
  assumes "r < 4"
  shows "loo_slopes rising_example ! r = Fin 2"
proof -
  have "r < length rising_example" using assms by (simp add: example_lengths)
  from loo_slopes_nth [OF example_distinct_dates(2) this] rising_example_without [OF assms]
  show ?thesis by simp
qed

lemma falling_example_stable:
  "list_all (\<lambda>item. np_lt item (Fin 0.1)) (loo_slopes falling_example)"
  unfolding list_all_length length_loo_slopes example_lengths
  by (simp add: falling_example_loo)

lemma rising_example_stable:
  "list_all (\<lambda>item. np_lt (Fin (- 0.02)) item) (loo_slopes rising_example)"
  unfolding list_all_length length_loo_slopes example_lengths
  by (simp add: rising_example_loo)

lemma example_nonempty:
  "step_down_example \<noteq> []" "step_up_example \<noteq> []" "flat_example \<noteq> []"
  "falling_example \<noteq> []" "rising_example \<noteq> []" "two_year_example \<noteq> []"
  by (simp_all add: step_down_example_def step_up_example_def flat_example_def
      falling_example_def rising_example_def two_year_example_def)

lemma variant_dead_zone:
  "dead_zone Classification_py = 0.02" "dead_zone Classification_1_py = 0.1"
  "steady_up Classification_py = ''Increasing''" "steady_down Classification_py = ''Decreasing''"
  "steady_up Classification_1_py = ''Slow increasing''"
  "steady_down Classification_1_py = ''Slow decreasing''"
  by (simp_all add: Classification_py_def Classification_1_py_def)

lemma example_step_changes:
  "step_change (Fin 1) 3 9 = Inr True" "step_change (Fin (- (21 / 5))) 2 4 = Inr False"
  "step_change (Fin (3 / 5)) 2 4 = Inr False"
  by (simp_all add: step_change_def)



lemma falling_example_classification:
  "classidication (scipy_imports guess_solver) Classification_py falling_example =
     Inr \<lparr>label = ''Increasing'', ts_slope = Fin (- 2), pw_R2 = Fin (- (21 / 5)),
          windows = 2, start_year = Date 2001 10 1, end_year = Date 2002 10 1\<rparr>"
proof -
  have up: "np_lt (robust_slope falling_example) (Fin (- dead_zone Classification_py))"
    by (simp add: falling_example_slope variant_dead_zone)
  from classidication_up_result [OF scipy_imports_bound example_nonempty(4) up
      falling_example_metrics example_step_changes(2)] falling_example_stable
  show ?thesis by (simp add: falling_example_slope variant_dead_zone)
qed

lemma rising_example_classification:
  "classidication (scipy_imports guess_solver) Classification_py rising_example =
     Inr \<lparr>label = ''Decreasing'', ts_slope = Fin 2, pw_R2 = Fin (3 / 5),
          windows = 2, start_year = Date 2001 10 1, end_year = Date 2002 10 1\<rparr>"
proof -
  have nup: "\<not> np_lt (robust_slope rising_example) (Fin (- dead_zone Classification_py))"
    by (simp add: rising_example_slope variant_dead_zone)
  have down: "np_lt (Fin (dead_zone Classification_py)) (robust_slope rising_example)"
    by (simp add: rising_example_slope variant_dead_zone)
  from classidication_down_result [OF scipy_imports_bound example_nonempty(5) nup down
      rising_example_metrics example_step_changes(3)] rising_example_stable
  show ?thesis by (simp add: rising_example_slope variant_dead_zone)
qed




section \<open>Constant series and pairs of stations\<close>


















section \<open>Series of identical values\<close>









section \<open>The claims\<close>

text \<open>
  C1. The claim says that stage 1 (R3TCSV) removes every flat run of three or more equal
  consecutive values entirely, its first row included. On three days with the value 5 the
  code keeps the first of the three rows: the output is not empty.
\<close>

theorem R3TCSV_keeps_first_of_flat_run:
  "R3TCSV [(Date 2020 1 1, 5), (Date 2020 1 2, 5), (Date 2020 1 3, 5)] = [(Date 2020 1 1, 5)]"
  by (simp add: R3TCSV_def cumsum_def ne_series_def shift_def duplicated_all_def select_rows_def)


text \<open>
  C5. The claim has stage 2 (RVZ3) drop every row further than three population standard
  deviations from the mean. The code calls \<open>Series.std()\<close>, whose default is the sample
  standard deviation. On the eleven-day series above, which stage 1 leaves as it is, the
  reading 11 lies 10 from the mean 1; three population standard deviations are less
  than 10, and stage 2 keeps the row.
\<close>

theorem RVZ3_population_std_counterexample:
  "R3TCSV zscore_example = zscore_example \<and>
   (Date 2020 1 11, 11) \<in> set (RVZ3 zscore_example) \<and>
   3 * population_std (map snd zscore_example) < \<bar>11 - average (map snd zscore_example)\<bar>"
proof -
  have "(Date 2020 1 11, 11) \<in> set zscore_example" by (simp add: zscore_example_def)
  moreover have "3 * sqrt (120 / 11) < (10::real)"
    using sqrt_bound [of "120 / 11" 10] by simp
  ultimately show ?thesis
    by (simp add: zscore_example_RVZ3 zscore_example_R3TCSV zscore_example_population_std
        zscore_example_average)
qed

text \<open>
  C5, amended. In a single pass, stage 2 keeps exactly the rows whose value lies within
  three sample standard deviations (divisor \<open>N - 1\<close>) of the mean of the series it is
  given, when that series has two rows or more. For a series of fewer than two rows the
  standard deviation is \<open>NaN\<close>, every comparison fails, and no row is kept.
\<close>

theorem RVZ3_sample_std:
  "RVZ3 rows =
     (if length rows < 2 then []
      else filter (\<lambda>r. \<bar>snd r - average (map snd rows)\<bar> \<le> 3 * sample_std (map snd rows)) rows)"
  by (rule RVZ3_rows)

theorem RVZ3_sample_std_witness:
  "RVZ3 zscore_example = zscore_example \<and> RVZ3 [(Date 2020 1 1, 4)] = []"
  using RVZ3_sample_std [of zscore_example] RVZ3_sample_std [of "[(Date 2020 1 1, 4)]"]
  unfolding zscore_example_average zscore_example_sample_std
  by (simp add: zscore_example_def sqrt_bound)


text \<open>
  C4. The claim says that stage 3 (RDRVI) leaves every row of a water year with an RVI
  inside the bounds untouched. The example series passes stages 1 and 2 unchanged. Its
  water years have the ranges 1, 1, 20 and 1, so the median is 1 and only the year from
  October 2002 is out of bounds (RVI 20). The code removes the rows from 1 October 2002 to
  1 October 2003, both ends included: the reading of 1 October 2003, which belongs to the
  next water year (RVI 1), is removed with them.
\<close>

theorem RDRVI_removes_first_day_of_next_year:
  "R3TCSV rdrvi_example = rdrvi_example \<and> RVZ3 rdrvi_example = rdrvi_example \<and>
   water_year_start (Date 2003 10 1) = Date 2003 10 1 \<and>
   RVI_of rdrvi_example (Date 2003 10 1) = Fin 1 \<and>
   RDRVI rdrvi_example =
     [(Date 2000 11 1, 10), (Date 2000 12 1, 11), (Date 2001 11 1, 10), (Date 2001 12 1, 11),
      (Date 2003 12 1, 11)]"
proof -
  have "RDRVI rdrvi_example =
     [(Date 2000 11 1, 10), (Date 2000 12 1, 11), (Date 2001 11 1, 10), (Date 2001 12 1, 11),
      (Date 2003 12 1, 11)]"
    unfolding RDRVI_def rdrvi_example_Max_Y rdrvi_example_Min_Y Let_def
    by (simp add: rdrvi_example_median np_div_def date_le_def add_years_def days_in_month_def
        date_key_def rdrvi_example_def)
  moreover have "water_years rdrvi_example =
      [Date 2000 10 1, Date 2001 10 1, Date 2002 10 1, Date 2003 10 1]"
    by (simp add: water_years_def rdrvi_example_def water_year_start_def date_key_def)
  moreover have "map (year_range rdrvi_example)
      [Date 2000 10 1, Date 2001 10 1, Date 2002 10 1, Date 2003 10 1] = [1, 1, 20, 1]"
    by (simp add: year_range_def rdrvi_example_def water_year_start_def maximum_def minimum_def)
  ultimately show ?thesis
    by (simp add: rdrvi_example_R3TCSV rdrvi_example_RVZ3 RVI_of_def rdrvi_example_median
        np_div_def water_year_start_def)
qed


text \<open>
  C8. The claim says that running the quality filter on its own output changes nothing.
  On the example of four water years with ranges 1, 1, 6 and 20 the first run removes the
  last year (RVI 20 / 3.5); on the rest the median of the ranges is 1, so a second run
  removes the year of range 6 as well.
\<close>

theorem quality_control_not_idempotent:
  "quality_control idempotence_example = idempotence_example_once \<and>
   quality_control (quality_control idempotence_example) = clean_example \<and>
   quality_control (quality_control idempotence_example) \<noteq> quality_control idempotence_example"
  by (simp add: quality_control_def idempotence_example_R3TCSV idempotence_example_RVZ3
        idempotence_example_RDRVI idempotence_example_once_R3TCSV idempotence_example_once_RVZ3
        idempotence_example_once_RDRVI)
     (simp add: idempotence_example_once_def clean_example_def)

text \<open>
  C8, amended. A series that already satisfies the three bounds (no flat run of three or
  more; at least two rows and no value beyond three sample standard deviations of the
  mean; every water year's RVI within [0.2, 5]) is returned unchanged.
\<close>

theorem quality_control_clean_fixed_point:
  assumes "no_flat_run3 (map snd rows)"
    and "within_three_std (map snd rows)"
    and "rvi_within_bounds rows"
  shows "quality_control rows = rows"
  using assms by (rule quality_control_within_bounds)

theorem quality_control_clean_fixed_point_witness:
  "no_flat_run3 (map snd clean_example) \<and> within_three_std (map snd clean_example) \<and>
   rvi_within_bounds clean_example \<and> quality_control clean_example = clean_example"
  using quality_control_clean_fixed_point [OF clean_example_no_flat_run3
      clean_example_within_three_std clean_example_rvi_within_bounds]
    clean_example_no_flat_run3 clean_example_within_three_std clean_example_rvi_within_bounds
  by simp


text \<open>
  C9. The claim says that every station below one of the two thresholds gets the sentinel
  row and that a station with 9 annual points and more than 100 readings is qualified.
  DownloadData.py does so: the station with eight annual points gets the sentinel, and
  the annual series of the station with 108 readings in nine water years is saved. The
  older copy 0\_DownloadData.py raises \<open>NameError\<close> for both stations, as for every
  station: it writes neither row.
\<close>

theorem station_info_0_NameError:
  "length (annual_series eight_year_station) = 8 \<and>
   station_info eight_year_station = (Sentinel ''no enough data'', None) \<and>
   station_info_0 eight_year_station = Inl NameError \<and>
   length nine_year_station = 108 \<and> length (annual_series nine_year_station) = 9 \<and>
   snd (station_info nine_year_station) = Some (annual_series nine_year_station) \<and>
   station_info_0 nine_year_station = Inl NameError"
proof -
  have e: "length (annual_series eight_year_station) = 8"
    by (simp add: eight_year_station_annual)
  have n: "length nine_year_station = 108" "length (annual_series nine_year_station) = 9"
    "0 < average (map snd (annual_series nine_year_station))"
    by (simp_all add: nine_year_station_annual average_def) (simp add: nine_year_station_def)
  have "station_info eight_year_station = (Sentinel ''no enough data'', None)"
    using e by (intro station_info_sentinel) simp
  moreover have "snd (station_info nine_year_station) = Some (annual_series nine_year_station)"
    using n by (intro station_info_qualified) simp_all
  ultimately show ?thesis
    using e n by (simp add: station_info_0_def)
qed














end
